theory Spec2Isabelle
  imports Main "HOL-Library.AList" "HOL-Library.Char_ord" "HOL-Library.List_Lexorder"
begin

section \<open>The Netlify client of libdns: a shallow embedding of client.go\<close>

text \<open>
  The file client.go holds five methods of \<open>*Provider\<close>: \<open>createRecord\<close>,
  \<open>updateRecord\<close>, \<open>getDNSRecords\<close>, \<open>getZoneInfo\<close> and \<open>doAPIRequest\<close>.
  Each becomes a HOL function that takes the provider and the world outside the
  process and returns its result together with the world as it leaves it, and with
  the provider where the method changes it (\<open>getZoneInfo\<close> fills the zone cache).
  An error return is \<open>Inl\<close>, a value is \<open>Inr\<close>. The deferred closing of a
  response body has no effect the methods or their callers see and is left out.

  The functions of Go's standard library that the methods call (\<open>strings\<close>,
  \<open>fmt\<close>, \<open>net/url\<close>, \<open>net/http\<close>, \<open>encoding/json\<close>) and
  \<open>libdns.AbsoluteName\<close> are written out first, each under the name it has in Go.
\<close>

subsection \<open>Package strings\<close>

definition strings_TrimRight :: "string \<Rightarrow> string \<Rightarrow> string" where
  \<comment> \<open>every trailing byte that occurs in the cutset is removed, not only the last one\<close>
  "strings_TrimRight s cutset = rev (dropWhile (\<lambda>c. c \<in> set cutset) (rev s))"

definition strings_Trim :: "string \<Rightarrow> string \<Rightarrow> string" where
  "strings_Trim s cutset = dropWhile (\<lambda>c. c \<in> set cutset) (strings_TrimRight s cutset)"

definition strings_HasSuffix :: "string \<Rightarrow> string \<Rightarrow> bool" where
  "strings_HasSuffix s suffix =
     (length suffix \<le> length s \<and> drop (length s - length suffix) s = suffix)"

fun strings_Join :: "string list \<Rightarrow> string \<Rightarrow> string" where
  "strings_Join [] sep = []"
| "strings_Join [x] sep = x"
| "strings_Join (x # y # ys) sep = x @ sep @ strings_Join (y # ys) sep"

fun strings_Split :: "string \<Rightarrow> char \<Rightarrow> string list" where
  \<comment> \<open>the pieces of a string between the occurrences of one separator byte\<close>
  "strings_Split [] sep = [[]]"
| "strings_Split (c # cs) sep =
     (if c = sep then [] # strings_Split cs sep
      else (case strings_Split cs sep of
              [] \<Rightarrow> [[c]]
            | piece # pieces \<Rightarrow> (c # piece) # pieces))"

definition strings_Cut :: "string \<Rightarrow> char \<Rightarrow> string \<times> string" where
  \<comment> \<open>the text before and after the first separator; all of it and nothing without one\<close>
  "strings_Cut s sep = (takeWhile (\<lambda>c. c \<noteq> sep) s, drop 1 (dropWhile (\<lambda>c. c \<noteq> sep) s))"

subsection \<open>Package fmt: the verbs \<open>%s\<close> and \<open>%d\<close>\<close>

text \<open>
  \<open>%s\<close> pastes a string, so \<open>fmt.Sprintf\<close> with \<open>%s\<close> verbs is written as
  concatenation. \<open>%d\<close> prints an integer in decimal, with a minus sign when it is
  negative; Go's \<open>int\<close> is modelled by \<open>int\<close>, since client.go does no arithmetic.
\<close>

definition digit_char :: "nat \<Rightarrow> char" where
  "digit_char d = char_of (48 + d)"

fun decimal :: "nat \<Rightarrow> string" where
  "decimal n = (if n < 10 then [digit_char n] else decimal (n div 10) @ [digit_char (n mod 10)])"

declare decimal.simps [simp del]

definition fmt_d :: "int \<Rightarrow> string" where
  "fmt_d i = (if i < 0 then CHR ''-'' # decimal (nat (- i)) else decimal (nat i))"

text \<open>Reading a decimal numeral back; used to state that a message carries a number.\<close>

definition digit_val :: "char \<Rightarrow> nat" where
  "digit_val c = of_char c - 48"

definition is_digit :: "char \<Rightarrow> bool" where
  "is_digit c = (CHR ''0'' \<le> c \<and> c \<le> CHR ''9'')"

definition read_decimal :: "string \<Rightarrow> nat" where
  "read_decimal s = foldl (\<lambda>a c. 10 * a + digit_val c) 0 s"

definition read_d :: "string \<Rightarrow> int option" where
  "read_d s =
     (case s of
        [] \<Rightarrow> None
      | c # cs \<Rightarrow>
          if c = CHR ''-'' then
            (if cs \<noteq> [] \<and> list_all is_digit cs then Some (- int (read_decimal cs)) else None)
          else if list_all is_digit s then Some (int (read_decimal s))
          else None)"

subsection \<open>Errors\<close>

text \<open>
  A Go \<open>error\<close> is kept with what a caller can tell of it: its dynamic type and
  its message. \<open>url_Error\<close> is a \<open>*url.Error\<close>, \<open>errorString\<close> the
  \<open>*errors.errorString\<close> that \<open>errors.New\<close> and \<open>fmt.Errorf\<close> allocate,
  \<open>json_Error\<close> an error of \<open>encoding/json\<close>, and \<open>io_Error\<close> an error of
  any other type. A panic of the runtime is a failure too, kept apart from every error.
\<close>

datatype error =
    url_Error string
  | io_Error string
  | errorString string
  | json_Error string
  | Panic string

fun Error :: "error \<Rightarrow> string" where
  "Error (url_Error m) = m"
| "Error (io_Error m) = m"
| "Error (errorString m) = m"
| "Error (json_Error m) = m"
| "Error (Panic m) = m"

definition bind_err :: "error + 'a \<Rightarrow> ('a \<Rightarrow> error + 'b) \<Rightarrow> error + 'b" where
  "bind_err r f = (case r of Inl err \<Rightarrow> Inl err | Inr x \<Rightarrow> f x)"

subsection \<open>Package encoding/json\<close>

text \<open>
  The bytes of an HTTP body are identified with the JSON document they spell
  (\<open>Doc\<close>); bytes that are not well-formed JSON stay what they are (\<open>Raw\<close>). The
  text syntax of JSON (white space, string escapes) belongs to the library and is
  not modelled. Numbers are integers: the structs of this package hold no other.

  Decoding follows \<open>json.Unmarshal\<close>: the members of an object are stored one
  after the other, so a later member overrides an earlier one for the same field;
  \<open>null\<close> stores nothing; members the struct does not have are skipped; a value of
  the wrong JSON kind is an error, reported after the whole document was read. The
  wording of the library's messages is not modelled.
\<close>

datatype json =
    JNull
  | JBool bool
  | JNumber int
  | JString string
  | JArray "json list"
  | JObject "(string \<times> json) list"

datatype bytes = Doc json | Raw string

text \<open>
  A member of an object is stored in the field whose name it has, or else in the field
  whose name it has but for the case of its letters. The library compares names after
  folding them: a small letter becomes the capital one, and so do the two signs outside
  ASCII whose capitals are letters, the Kelvin sign (for K) and the long s (for S).
\<close>

definition upper_ascii :: "char \<Rightarrow> char" where
  "upper_ascii c =
     (case map_of (zip ''abcdefghijklmnopqrstuvwxyz'' ''ABCDEFGHIJKLMNOPQRSTUVWXYZ'') c of
        None \<Rightarrow> c
      | Some u \<Rightarrow> u)"

fun fold_name :: "string \<Rightarrow> string" where
  "fold_name [] = []"
| "fold_name [c] = [upper_ascii c]"
| "fold_name [c, d] =
     (if c = CHR 0xC5 \<and> d = CHR 0xBF then ''S'' else [upper_ascii c, upper_ascii d])"
| "fold_name (c # d # e # cs) =
     (if c = CHR 0xE2 \<and> d = CHR 0x84 \<and> e = CHR 0xAA then CHR ''K'' # fold_name cs
      else if c = CHR 0xC5 \<and> d = CHR 0xBF then CHR ''S'' # fold_name (e # cs)
      else upper_ascii c # fold_name (d # e # cs))"

text \<open>
  A field of a struct, for the decoder: its JSON name and how a JSON value is stored in
  it. A string goes into a string field and an integer that fits into an \<open>int\<close>
  field; \<open>null\<close> leaves the field as it is; any other value is an error.
\<close>

type_synonym 'r field = "string \<times> (json \<Rightarrow> 'r \<Rightarrow> error + 'r)"

definition string_field :: "(string \<Rightarrow> 'r \<Rightarrow> 'r) \<Rightarrow> json \<Rightarrow> 'r \<Rightarrow> error + 'r" where
  "string_field store j r =
     (case j of
        JString s \<Rightarrow> Inr (store s r)
      | JNull \<Rightarrow> Inr r
      | _ \<Rightarrow> Inl (json_Error ''json: cannot unmarshal into Go struct field of type string''))"

definition int_field :: "(int \<Rightarrow> 'r \<Rightarrow> 'r) \<Rightarrow> json \<Rightarrow> 'r \<Rightarrow> error + 'r" where
  "int_field store j r =
     (case j of
        JNumber n \<Rightarrow>
          if - (2 ^ 63) \<le> n \<and> n < 2 ^ 63 then Inr (store n r)
          else Inl (json_Error ''json: cannot unmarshal number into Go struct field of type int'')
      | JNull \<Rightarrow> Inr r
      | _ \<Rightarrow> Inl (json_Error ''json: cannot unmarshal into Go struct field of type int''))"

definition find_field :: "'r field list \<Rightarrow> string \<Rightarrow> 'r field option" where
  \<comment> \<open>an exact match is preferred to a match of the folded names\<close>
  "find_field fields key =
     (case find (\<lambda>f. fst f = key) fields of
        Some f \<Rightarrow> Some f
      | None \<Rightarrow> find (\<lambda>f. fold_name (fst f) = fold_name key) fields)"

definition unmarshal_member ::
  "'r field list \<Rightarrow> error option \<times> 'r \<Rightarrow> string \<times> json \<Rightarrow> error option \<times> 'r" where
  \<comment> \<open>one member of an object: the first error is kept and decoding goes on\<close>
  "unmarshal_member fields acc member =
     (case acc of (err, r) \<Rightarrow>
        (case find_field fields (fst member) of
           None \<Rightarrow> (err, r)
         | Some f \<Rightarrow>
             (case snd f (snd member) r of
                Inl e \<Rightarrow> (if err = None then Some e else err, r)
              | Inr r' \<Rightarrow> (err, r'))))"

definition unmarshal_struct :: "'r field list \<Rightarrow> 'r \<Rightarrow> json \<Rightarrow> error + 'r" where
  \<comment> \<open>the members are taken in the order of the document, into a struct that starts at zero\<close>
  "unmarshal_struct fields zero j =
     (case j of
        JObject ms \<Rightarrow>
          (case foldl (unmarshal_member fields) (None, zero) ms of
             (None, r) \<Rightarrow> Inr r
           | (Some e, r) \<Rightarrow> Inl e)
      | JNull \<Rightarrow> Inr zero
      | _ \<Rightarrow> Inl (json_Error ''json: cannot unmarshal into Go value of type struct''))"

fun collect :: "(error + 'a) list \<Rightarrow> error + 'a list" where
  "collect [] = Inr []"
| "collect (r # rs) = bind_err r (\<lambda>x. bind_err (collect rs) (\<lambda>xs. Inr (x # xs)))"

fun unmarshal_slice :: "(json \<Rightarrow> error + 'a) \<Rightarrow> json \<Rightarrow> error + 'a list" where
  "unmarshal_slice elem (JArray js) = collect (map elem js)"
| "unmarshal_slice elem JNull = Inr []"
| "unmarshal_slice elem _ = Inl (json_Error ''json: cannot unmarshal into Go value of type slice'')"

definition json_Unmarshal :: "(json \<Rightarrow> error + 'a) \<Rightarrow> bytes \<Rightarrow> error + 'a" where
  "json_Unmarshal target data =
     (case data of
        Raw s \<Rightarrow> Inl (json_Error ''invalid character looking for beginning of value'')
      | Doc j \<Rightarrow> target j)"

definition json_Marshal :: "json \<Rightarrow> error + bytes" where
  \<comment> \<open>encoding a struct of strings and integers never fails\<close>
  "json_Marshal j = Inr (Doc j)"

definition omitempty_string :: "string \<Rightarrow> string \<Rightarrow> (string \<times> json) list" where
  "omitempty_string key s = (if s = [] then [] else [(key, JString s)])"

definition omitempty_int :: "string \<Rightarrow> int \<Rightarrow> (string \<times> json) list" where
  "omitempty_int key n = (if n = 0 then [] else [(key, JNumber n)])"

subsection \<open>The data model\<close>

text \<open>
  Modelled from the spec: the struct \<open>netlifyZone\<close> is declared outside client.go.
  The spec gives a zone an opaque provider identifier and a fully-qualified name;
  client.go reads the fields \<open>ID\<close> and \<open>Name\<close>. The JSON members carry the
  names of the fields.
\<close>

record netlifyZone =
  ID :: string
  Name :: string

text \<open>
  Modelled from the spec: the JSON form of \<open>netlifyZone\<close>, which the struct tags
  outside client.go fix: the two fields, under their names.
\<close>

definition unmarshal_netlifyZone :: "json \<Rightarrow> error + netlifyZone" where
  "unmarshal_netlifyZone =
     unmarshal_struct
       [(''ID'', string_field (\<lambda>s z. z\<lparr>netlifyZone.ID := s\<rparr>)),
        (''Name'', string_field (\<lambda>s z. z\<lparr>netlifyZone.Name := s\<rparr>))]
       \<lparr>netlifyZone.ID = [], netlifyZone.Name = []\<rparr>"

text \<open>
  Modelled from the spec: \<open>libdns.Record\<close>, the caller-facing record of the libdns
  library, with the fields the spec lists (type, zone-relative name, value, TTL in
  seconds); client.go reads \<open>Type\<close>, \<open>Name\<close> and \<open>Value\<close>.
\<close>

record libdns_Record =
  Type :: string
  Name :: string
  Value :: string
  TTL :: int

text \<open>
  Modelled from the spec: the struct \<open>netlifyDNSRecord\<close>, the wire form of a
  record, is declared outside client.go. The spec lists its fields (ID, DNSZoneID,
  Type, Name, Content, TTL) and says that the wire model uses zero-value-as-absent: a
  field that is empty is left out of the JSON object (Go's \<open>omitempty\<close>), as the
  comment on \<open>updateRecord\<close> in client.go also says.
\<close>

record netlifyDNSRecord =
  ID :: string
  DNSZoneID :: string
  Type :: string
  Name :: string
  Content :: string
  TTL :: int

text \<open>
  Modelled from the spec: the JSON form of \<open>netlifyDNSRecord\<close>, which the struct
  tags outside client.go fix: one member per field, under the name of the field, in the
  order of the fields, an empty field left out.
\<close>

definition marshal_netlifyDNSRecord :: "netlifyDNSRecord \<Rightarrow> json" where
  "marshal_netlifyDNSRecord r =
     JObject
       (omitempty_string ''ID'' (netlifyDNSRecord.ID r) @
        omitempty_string ''DNSZoneID'' (DNSZoneID r) @
        omitempty_string ''Type'' (netlifyDNSRecord.Type r) @
        omitempty_string ''Name'' (netlifyDNSRecord.Name r) @
        omitempty_string ''Content'' (Content r) @
        omitempty_int ''TTL'' (netlifyDNSRecord.TTL r))"

text \<open>
  Modelled from the spec: decoding a \<open>netlifyDNSRecord\<close>, by the same struct tags.
\<close>

definition unmarshal_netlifyDNSRecord :: "json \<Rightarrow> error + netlifyDNSRecord" where
  "unmarshal_netlifyDNSRecord =
     unmarshal_struct
       [(''ID'', string_field (\<lambda>s r. r\<lparr>netlifyDNSRecord.ID := s\<rparr>)),
        (''DNSZoneID'', string_field (\<lambda>s r. r\<lparr>DNSZoneID := s\<rparr>)),
        (''Type'', string_field (\<lambda>s r. r\<lparr>netlifyDNSRecord.Type := s\<rparr>)),
        (''Name'', string_field (\<lambda>s r. r\<lparr>netlifyDNSRecord.Name := s\<rparr>)),
        (''Content'', string_field (\<lambda>s r. r\<lparr>Content := s\<rparr>)),
        (''TTL'', int_field (\<lambda>n r. r\<lparr>netlifyDNSRecord.TTL := n\<rparr>))]
       \<lparr>netlifyDNSRecord.ID = [], DNSZoneID = [], netlifyDNSRecord.Type = [],
        netlifyDNSRecord.Name = [], Content = [], netlifyDNSRecord.TTL = 0\<rparr>"

text \<open>
  Modelled from the spec: the struct \<open>Provider\<close> is declared outside client.go. Of
  its fields client.go uses the access token, the zone cache \<open>zones\<close> (a Go map,
  \<open>nil\<close> in a zero-value provider: \<open>None\<close> here), the mutex \<open>zonesMu\<close> and the
  logger. The last two hold no data the methods read; locking, unlocking and logging
  are recorded as events of the world.
\<close>

record Provider =
  PersonnalAccessToken :: string
  zones :: "(string \<rightharpoonup> netlifyZone) option"

text \<open>
  Reading a \<open>nil\<close> map finds nothing; assigning to an entry of a \<open>nil\<close> map
  panics.
\<close>

definition map_index :: "(string \<rightharpoonup> netlifyZone) option \<Rightarrow> string \<Rightarrow> netlifyZone option" where
  "map_index m key = (case m of None \<Rightarrow> None | Some entries \<Rightarrow> entries key)"

definition map_assign ::
  "(string \<rightharpoonup> netlifyZone) option \<Rightarrow> string \<Rightarrow> netlifyZone \<Rightarrow>
   error + (string \<rightharpoonup> netlifyZone) option" where
  "map_assign m key v =
     (case m of
        None \<Rightarrow> Inl (Panic ''assignment to entry in nil map'')
      | Some entries \<Rightarrow> Inr (Some (entries(key \<mapsto> v))))"

subsection \<open>libdns.AbsoluteName\<close>

text \<open>
  The function of the libdns library that joins a zone-relative name and a zone name:
  the zone itself for the names \<open>""\<close> and \<open>"@"\<close>, otherwise the name, a dot unless
  the name ends in one, and the zone.
\<close>

definition AbsoluteName :: "string \<Rightarrow> string \<Rightarrow> string" where
  "AbsoluteName name zone =
     (if zone = [] then strings_Trim name ''.''
      else if name = [] \<or> name = ''@'' then zone
      else (if strings_HasSuffix name ''.'' then name else name @ ''.'') @ zone)"

subsection \<open>Package net/url: query strings\<close>

text \<open>
  \<open>url.Values\<close> is a Go map from a key to a list of values; it is kept as an
  association list with one entry per key. \<open>Set\<close> replaces the values of a key,
  \<open>Encode\<close> writes the entries sorted by key as \<open>key=value\<close> joined by \<open>&\<close>,
  each side escaped by \<open>QueryEscape\<close>. \<open>ParseQuery\<close> is the library's reader of
  such a string; no method of client.go calls it, it serves to say what a query string
  contains.
\<close>

type_synonym Values = "(string \<times> string list) list"

definition is_alnum :: "char \<Rightarrow> bool" where
  "is_alnum c =
     ((CHR ''a'' \<le> c \<and> c \<le> CHR ''z'') \<or> (CHR ''A'' \<le> c \<and> c \<le> CHR ''Z'') \<or>
      (CHR ''0'' \<le> c \<and> c \<le> CHR ''9''))"

definition shouldEscape :: "char \<Rightarrow> bool" where
  \<comment> \<open>in the mode of a query component: all but letters, digits and the four marks\<close>
  "shouldEscape c = (if is_alnum c then False else if c \<in> set ''-_.~'' then False else True)"

definition upperhex :: "nat \<Rightarrow> char" where
  "upperhex n = ''0123456789ABCDEF'' ! n"

fun QueryEscape :: "string \<Rightarrow> string" where
  "QueryEscape [] = []"
| "QueryEscape (c # cs) =
     (if shouldEscape c then
        (if c = CHR '' '' then CHR ''+'' # QueryEscape cs
         else CHR ''%'' # upperhex (of_char c div 16) # upperhex (of_char c mod 16) # QueryEscape cs)
      else c # QueryEscape cs)"

definition ishex :: "char \<Rightarrow> bool" where
  "ishex c =
     ((CHR ''0'' \<le> c \<and> c \<le> CHR ''9'') \<or> (CHR ''a'' \<le> c \<and> c \<le> CHR ''f'') \<or>
      (CHR ''A'' \<le> c \<and> c \<le> CHR ''F''))"

definition unhex :: "char \<Rightarrow> nat" where
  "unhex c =
     (if CHR ''0'' \<le> c \<and> c \<le> CHR ''9'' then of_char c - 48
      else if CHR ''a'' \<le> c \<and> c \<le> CHR ''f'' then of_char c - 97 + 10
      else if CHR ''A'' \<le> c \<and> c \<le> CHR ''F'' then of_char c - 65 + 10
      else 0)"

fun QueryUnescape :: "string \<Rightarrow> error + string" where
  "QueryUnescape [] = Inr []"
| "QueryUnescape (c # cs) =
     (if c = CHR ''%'' then
        (case cs of
           a # b # rest \<Rightarrow>
             if ishex a \<and> ishex b
             then bind_err (QueryUnescape rest) (\<lambda>t. Inr (char_of (unhex a * 16 + unhex b) # t))
             else Inl (url_Error ''invalid URL escape'')
         | _ \<Rightarrow> Inl (url_Error ''invalid URL escape''))
      else if c = CHR ''+'' then bind_err (QueryUnescape cs) (\<lambda>t. Inr (CHR '' '' # t))
      else bind_err (QueryUnescape cs) (\<lambda>t. Inr (c # t)))"

definition Values_Set :: "Values \<Rightarrow> string \<Rightarrow> string \<Rightarrow> Values" where
  "Values_Set v key val = AList.update key [val] v"

definition Values_Add :: "Values \<Rightarrow> string \<Rightarrow> string \<Rightarrow> Values" where
  "Values_Add v key val =
     AList.update key ((case map_of v key of None \<Rightarrow> [] | Some vs \<Rightarrow> vs) @ [val]) v"

definition Values_Encode :: "Values \<Rightarrow> string" where
  "Values_Encode v =
     strings_Join
       (concat (map (\<lambda>(k, vs). map (\<lambda>x. QueryEscape k @ ''='' @ QueryEscape x) vs)
                    (sort_key fst v)))
       ''&''"

definition parse_pair :: "error option \<times> Values \<Rightarrow> string \<Rightarrow> error option \<times> Values" where
  \<comment> \<open>one turn of the loop of \<open>ParseQuery\<close>, on one piece between two \<open>&\<close>\<close>
  "parse_pair acc piece =
     (case acc of (err, m) \<Rightarrow>
        if CHR '';'' \<in> set piece
        then (Some (errorString ''invalid semicolon separator in query''), m)
        else if piece = [] then (err, m)
        else (case strings_Cut piece CHR ''='' of (k, v) \<Rightarrow>
                (case QueryUnescape k of
                   Inl e \<Rightarrow> (if err = None then Some e else err, m)
                 | Inr key \<Rightarrow>
                     (case QueryUnescape v of
                        Inl e \<Rightarrow> (if err = None then Some e else err, m)
                      | Inr val \<Rightarrow> (err, Values_Add m key val)))))"

definition url_ParseQuery :: "string \<Rightarrow> error option \<times> Values" where
  "url_ParseQuery query = foldl parse_pair (None, []) (strings_Split query CHR ''&'')"

subsection \<open>Package net/http and the world\<close>

text \<open>
  A request is what \<open>http.NewRequestWithContext\<close> is given (method, URL, body) and
  the headers set on it afterwards. A response is its status code and what reading its
  body to the end gives: the bytes, or the error the read ends with. That error is any
  Go error value: an \<open>*errors.errorString\<close> with any message
  (\<open>io.ErrUnexpectedEOF\<close> is one), or an error of another type.
\<close>

datatype read_error = ErrorString string | OtherError string

record Request =
  Method :: string
  URL :: string
  Header :: "(string \<times> string list) list"
  Body :: "bytes option"

record Response =
  StatusCode :: int
  Body :: "read_error + bytes"

datatype Context = NilContext | LiveContext

text \<open>
  An event is something a method does that another goroutine or the outside can see:
  locking and unlocking the mutex of the zone cache, making the map of the cache,
  reading and assigning one of its entries, logging an error, and sending a request.
\<close>

datatype event =
    MutexLock
  | MutexUnlock
  | MakeMap
  | MapIndex string
  | MapAssign string netlifyZone
  | LoggerError string
  | ClientDo Request

text \<open>
  The world is everything outside the provider: the network behind
  \<open>http.DefaultClient\<close>, the library's URL parser, and the trace of what the
  methods did to it. The network is a stub transport: it answers a request, given the
  requests it has served before, with a response or with the message of the
  \<open>*url.Error\<close> that \<open>Do\<close> returns (no connection, a cancelled context). The URL
  parser says of a URL whether \<open>url.Parse\<close> refuses it, and with which message;
  both stay parameters, so every theorem below holds for every network and every
  parser.
\<close>

record world =
  url_Parse :: "string \<Rightarrow> string option"
  transport :: "Request list \<Rightarrow> Request \<Rightarrow> string + Response"
  trace :: "event list"

definition emit :: "event \<Rightarrow> world \<Rightarrow> world" where
  "emit e w = w\<lparr>trace := trace w @ [e]\<rparr>"

fun requests :: "event list \<Rightarrow> Request list" where
  "requests [] = []"
| "requests (ClientDo req # es) = req # requests es"
| "requests (_ # es) = requests es"

definition Logger_Error :: "string \<Rightarrow> world \<Rightarrow> world" where
  "Logger_Error msg w = emit (LoggerError msg) w"

definition http_MethodGet :: string where "http_MethodGet = ''GET''"

definition http_MethodPost :: string where "http_MethodPost = ''POST''"

definition http_MethodPatch :: string where "http_MethodPatch = ''PATCH''"

definition http_NewRequestWithContext ::
  "world \<Rightarrow> Context \<Rightarrow> string \<Rightarrow> string \<Rightarrow> bytes option \<Rightarrow> error + Request" where
  \<comment> \<open>the three methods used are valid; a nil context and an unparsable URL are refused\<close>
  "http_NewRequestWithContext w ctx method url body =
     (if ctx = NilContext then Inl (errorString ''net/http: nil Context'')
      else (case url_Parse w url of
              Some msg \<Rightarrow> Inl (url_Error msg)
            | None \<Rightarrow> Inr \<lparr>Method = method, URL = url, Header = [], Request.Body = body\<rparr>))"

definition Header_Set :: "Request \<Rightarrow> string \<Rightarrow> string \<Rightarrow> Request" where
  \<comment> \<open>\<open>req.Header.Set\<close>; the two keys used are in canonical form already\<close>
  "Header_Set req key val = req\<lparr>Header := AList.update key [val] (Header req)\<rparr>"

definition Client_Do :: "Request \<Rightarrow> world \<Rightarrow> (error + Response) \<times> world" where
  "Client_Do req w =
     (case transport w (requests (trace w)) req of
        Inl msg \<Rightarrow> (Inl (url_Error msg), emit (ClientDo req) w)
      | Inr resp \<Rightarrow> (Inr resp, emit (ClientDo req) w))"

definition as_error :: "read_error \<Rightarrow> error" where
  \<comment> \<open>the same error value, among the errors of the package\<close>
  "as_error e = (case e of ErrorString m \<Rightarrow> errorString m | OtherError m \<Rightarrow> io_Error m)"

definition io_ReadAll :: "read_error + bytes \<Rightarrow> error + bytes" where
  \<comment> \<open>the error of the read is handed on as it is\<close>
  "io_ReadAll body = (case body of Inl e \<Rightarrow> Inl (as_error e) | Inr data \<Rightarrow> Inr data)"

subsection \<open>client.go\<close>

definition baseURL :: string where
  "baseURL = ''https://api.netlify.com/api/v1''"

definition doAPIRequest :: "Provider \<Rightarrow> Request \<Rightarrow> world \<Rightarrow> (error + bytes) \<times> world" where
  "doAPIRequest p req0 w0 =
     (let req = Header_Set req0 ''Authorization'' (''Bearer '' @ PersonnalAccessToken p) in
      case Client_Do req w0 of
        (Inl err, w) \<Rightarrow> (Inl err, Logger_Error ''Error in request'' w)
      | (Inr resp, w) \<Rightarrow>
          (case io_ReadAll (Response.Body resp) of
             Inl err \<Rightarrow> (Inl err, Logger_Error (Error err) w)
           | Inr data \<Rightarrow>
               if StatusCode resp \<ge> 400
               then (Inl (errorString (''got error status: HTTP '' @ fmt_d (StatusCode resp))),
                     Logger_Error ''Error in HTTP'' w)
               else (Inr data, w)))"

text \<open>
  The function \<open>netlifyRecord\<close>, which makes the wire form of a \<open>libdns.Record\<close>,
  is declared outside client.go. \<open>createRecord\<close> calls it with the record alone; in
  the model it is a parameter of \<open>createRecord\<close>, so what is proved of
  \<open>createRecord\<close> holds whatever the function computes from the record.
\<close>

definition createRecord ::
  "(libdns_Record \<Rightarrow> netlifyDNSRecord) \<Rightarrow>
   Provider \<Rightarrow> Context \<Rightarrow> netlifyZone \<Rightarrow> libdns_Record \<Rightarrow> world \<Rightarrow>
   (error + netlifyDNSRecord) \<times> world" where
  "createRecord netlifyRecord p ctx zoneInfo record w0 =
     (case json_Marshal (marshal_netlifyDNSRecord (netlifyRecord record)) of
        Inl err \<Rightarrow> (Inl err, w0)
      | Inr jsonBytes \<Rightarrow>
          (let reqURL = baseURL @ ''/dns_zones/'' @ netlifyZone.ID zoneInfo @ ''/dns_records'' in
           case http_NewRequestWithContext w0 ctx http_MethodPost reqURL (Some jsonBytes) of
             Inl err \<Rightarrow> (Inl err, w0)
           | Inr req \<Rightarrow>
               (case doAPIRequest p (Header_Set req ''Content-Type'' ''application/json'') w0 of
                  (Inl err, w) \<Rightarrow> (Inl err, Logger_Error (Error err) w)
                | (Inr res, w) \<Rightarrow>
                    (case json_Unmarshal unmarshal_netlifyDNSRecord res of
                       Inl err \<Rightarrow> (Inl err, Logger_Error (Error err) w)
                     | Inr result \<Rightarrow> (Inr result, w)))))"

definition updateRecord ::
  "Provider \<Rightarrow> Context \<Rightarrow> netlifyDNSRecord \<Rightarrow> netlifyDNSRecord \<Rightarrow> world \<Rightarrow>
   (error + netlifyDNSRecord) \<times> world" where
  "updateRecord p ctx oldRec newRec w0 =
     (let reqURL = baseURL @ ''/dns_zones/'' @ DNSZoneID oldRec @ ''/dns_records/'' @
                   netlifyDNSRecord.ID oldRec in
      case json_Marshal (marshal_netlifyDNSRecord newRec) of
        Inl err \<Rightarrow> (Inl err, w0)
      | Inr jsonBytes \<Rightarrow>
          (case http_NewRequestWithContext w0 ctx http_MethodPatch reqURL (Some jsonBytes) of
             Inl err \<Rightarrow> (Inl err, Logger_Error (Error err) w0)
           | Inr req \<Rightarrow>
               (case doAPIRequest p (Header_Set req ''Content-Type'' ''application/json'') w0 of
                  (Inl err, w) \<Rightarrow> (Inl err, Logger_Error (Error err) w)
                | (Inr res, w) \<Rightarrow>
                    (case json_Unmarshal unmarshal_netlifyDNSRecord res of
                       Inl err \<Rightarrow> (Inl err, Logger_Error (Error err) w)
                     | Inr result \<Rightarrow> (Inr result, w)))))"

definition getDNSRecords ::
  "Provider \<Rightarrow> Context \<Rightarrow> netlifyZone \<Rightarrow> libdns_Record \<Rightarrow> bool \<Rightarrow> world \<Rightarrow>
   (error + netlifyDNSRecord list) \<times> world" where
  "getDNSRecords p ctx zoneInfo rec matchContent w0 =
     (let qs0 = [];
          qs1 = Values_Set qs0 ''type'' (libdns_Record.Type rec);
          qs2 = Values_Set qs1 ''name''
                  (AbsoluteName (libdns_Record.Name rec) (netlifyZone.Name zoneInfo));
          qs = (if matchContent then Values_Set qs2 ''content'' (Value rec) else qs2);
          reqURL = baseURL @ ''/zones/'' @ netlifyZone.ID zoneInfo @ ''/dns_records?'' @
                   Values_Encode qs
      in case http_NewRequestWithContext w0 ctx http_MethodGet reqURL None of
           Inl err \<Rightarrow> (Inl err, Logger_Error (Error err) w0)
         | Inr req \<Rightarrow>
             (case doAPIRequest p req w0 of
                (Inl err, w) \<Rightarrow> (Inl err, Logger_Error (Error err) w)
              | (Inr res, w) \<Rightarrow>
                  (case json_Unmarshal (unmarshal_slice unmarshal_netlifyDNSRecord) res of
                     Inl err \<Rightarrow> (Inl err, Logger_Error (Error err) w)
                   | Inr results \<Rightarrow> (Inr results, w))))"

text \<open>
  \<open>getZoneInfo\<close> locks the mutex and defers the unlocking, which therefore happens
  on every way out; the rest of its body is \<open>getZoneInfo_locked\<close>.
\<close>

definition getZoneInfo_locked ::
  "Provider \<Rightarrow> Context \<Rightarrow> string \<Rightarrow> world \<Rightarrow> (error + netlifyZone) \<times> Provider \<times> world" where
  "getZoneInfo_locked p0 ctx zoneName0 w0 =
     (let (p, w1) = (if zones p0 = None
                     then (p0\<lparr>zones := Some Map.empty\<rparr>, emit MakeMap w0)
                     else (p0, w0));
          w2 = emit (MapIndex zoneName0) w1
      in case map_index (zones p) zoneName0 of
        Some zone \<Rightarrow> (Inr zone, p, w2)
      | None \<Rightarrow>
          (let zoneName = strings_TrimRight zoneName0 ''.'';
               qs = Values_Set [] ''name'' zoneName;
               reqURL = baseURL @ ''/dns_zones?'' @ Values_Encode qs
           in case http_NewRequestWithContext w2 ctx http_MethodGet reqURL None of
                Inl err \<Rightarrow> (Inl err, p, Logger_Error (Error err) w2)
              | Inr req \<Rightarrow>
                  (case doAPIRequest p req w2 of
                     (Inl err, w) \<Rightarrow> (Inl err, p, Logger_Error (Error err) w)
                   | (Inr resp, w) \<Rightarrow>
                       (case json_Unmarshal (unmarshal_slice unmarshal_netlifyZone) resp of
                          Inl err \<Rightarrow> (Inl err, p, Logger_Error (Error err) w)
                        | Inr zs \<Rightarrow>
                            if length zs \<noteq> 1
                            then (Inl (errorString (''expected 1 zone, got '' @
                                         fmt_d (int (length zs)) @ '' for '' @ zoneName)),
                                  p, w)
                            else (case map_assign (zones p) zoneName (zs ! 0) of
                                    Inl err \<Rightarrow> (Inl err, p, w)
                                  | Inr m \<Rightarrow>
                                      (Inr (zs ! 0), p\<lparr>zones := m\<rparr>,
                                       emit (MapAssign zoneName (zs ! 0)) w))))))"

definition getZoneInfo ::
  "Provider \<Rightarrow> Context \<Rightarrow> string \<Rightarrow> world \<Rightarrow> (error + netlifyZone) \<times> Provider \<times> world" where
  "getZoneInfo p ctx zoneName w0 =
     (case getZoneInfo_locked p ctx zoneName (emit MutexLock w0) of
        (r, p', w) \<Rightarrow> (r, p', emit MutexUnlock w))"

subsection \<open>Reading an error, as a caller does\<close>

definition strings_CutPrefix :: "string \<Rightarrow> string \<Rightarrow> string option" where
  "strings_CutPrefix s prefix =
     (if take (length prefix) s = prefix then Some (drop (length prefix) s) else None)"

text \<open>
  The status code an error of \<open>doAPIRequest\<close> carries: the number after
  \<open>got error status: HTTP\<close> in the message of an \<open>errorString\<close>, and none for any
  other error.
\<close>

definition error_status :: "error \<Rightarrow> int option" where
  "error_status e =
     (case e of
        errorString m \<Rightarrow>
          (case strings_CutPrefix m ''got error status: HTTP '' of
             None \<Rightarrow> None
           | Some d \<Rightarrow> read_d d)
      | _ \<Rightarrow> None)"

subsection \<open>Names used to state the properties\<close>

text \<open>
  \<open>accepts\<close> says when \<open>http.NewRequestWithContext\<close> returns a request:
  the context is not nil and the URL parses.
\<close>

definition accepts :: "world \<Rightarrow> Context \<Rightarrow> string \<Rightarrow> bool" where
  "accepts w ctx url = (ctx \<noteq> NilContext \<and> url_Parse w url = None)"

text \<open>
  The request \<open>getZoneInfo\<close> sends for a zone name, as lines 117 to 122 and 155 of
  client.go build it, and the error of line 141.
\<close>

definition zone_query :: "Provider \<Rightarrow> string \<Rightarrow> Request" where
  "zone_query p zoneName =
     \<lparr>Method = ''GET'',
      URL = baseURL @ ''/dns_zones?'' @
            Values_Encode [(''name'', [strings_TrimRight zoneName ''.''])],
      Header = [(''Authorization'', [''Bearer '' @ PersonnalAccessToken p])],
      Request.Body = None\<rparr>"

definition zone_count_error :: "nat \<Rightarrow> string \<Rightarrow> error" where
  "zone_count_error n zoneName =
     errorString (''expected 1 zone, got '' @ fmt_d (int n) @ '' for '' @
                  strings_TrimRight zoneName ''.'')"

text \<open>
  One \<open>key=value\<close> piece of an encoded query string, and the pieces of a
  \<open>Values\<close> in the order \<open>Encode\<close> writes them.
\<close>

definition pair_string :: "string \<times> string \<Rightarrow> string" where
  "pair_string kv = QueryEscape (fst kv) @ CHR ''='' # QueryEscape (snd kv)"

definition pairs_of :: "Values \<Rightarrow> (string \<times> string) list" where
  "pairs_of v = concat (map (\<lambda>(k, vs). map (Pair k) vs) (sort_key fst v))"

text \<open>
  The spec's words for the body of an update, "only the non-empty fields": all six
  fields of a wire record as JSON members, and those among them whose value is not
  empty. To be compared with \<open>marshal_netlifyDNSRecord\<close>.
\<close>

definition wire_members :: "netlifyDNSRecord \<Rightarrow> (string \<times> json) list" where
  "wire_members r =
     [(''ID'', JString (netlifyDNSRecord.ID r)),
      (''DNSZoneID'', JString (DNSZoneID r)),
      (''Type'', JString (netlifyDNSRecord.Type r)),
      (''Name'', JString (netlifyDNSRecord.Name r)),
      (''Content'', JString (Content r)),
      (''TTL'', JNumber (netlifyDNSRecord.TTL r))]"

definition empty_value :: "json \<Rightarrow> bool" where
  "empty_value v = (v = JString [] \<or> v = JNumber 0)"

definition nonempty_members :: "netlifyDNSRecord \<Rightarrow> (string \<times> json) list" where
  "nonempty_members r = filter (\<lambda>m. \<not> empty_value (snd m)) (wire_members r)"

text \<open>Every key of the zone cache is a name with its trailing dots removed.\<close>

definition normal_keys :: "Provider \<Rightarrow> bool" where
  "normal_keys p = (\<forall>k \<in> dom (map_index (zones p)). strings_TrimRight k ''.'' = k)"

subsection \<open>Stub worlds for the examples\<close>

definition stub_world :: "(Request list \<Rightarrow> Request \<Rightarrow> string + Response) \<Rightarrow> world" where
  \<comment> \<open>nothing has happened yet, and every URL parses\<close>
  "stub_world t = \<lparr>url_Parse = (\<lambda>u. None), transport = t, trace = []\<rparr>"

definition answer_with ::
  "int \<Rightarrow> read_error + bytes \<Rightarrow> Request list \<Rightarrow> Request \<Rightarrow> string + Response" where
  "answer_with code body served req = Inr \<lparr>StatusCode = code, Body = body\<rparr>"

definition refuse_with :: "string \<Rightarrow> Request list \<Rightarrow> Request \<Rightarrow> string + Response" where
  "refuse_with msg served req = Inl msg"

definition fresh_provider :: Provider where
  \<comment> \<open>a zero-value provider that has its token and nothing else\<close>
  "fresh_provider = \<lparr>PersonnalAccessToken = ''token'', zones = None\<rparr>"

definition list_zones_request :: Request where
  "list_zones_request =
     \<lparr>Method = ''GET'', URL = ''https://api.netlify.com/api/v1/dns_zones?name=example.com'',
      Header = [], Request.Body = None\<rparr>"

definition example_zone :: "string \<Rightarrow> json" where
  "example_zone ident = JObject [(''ID'', JString ident), (''Name'', JString ''example.com'')]"

definition one_zone :: "Request list \<Rightarrow> Request \<Rightarrow> string + Response" where
  \<comment> \<open>the provider lists one zone, whatever it is asked\<close>
  "one_zone = answer_with 200 (Inr (Doc (JArray [example_zone ''z1''])))"

definition recreated_zone :: "Request list \<Rightarrow> Request \<Rightarrow> string + Response" where
  \<comment> \<open>the zone has the identifier z1 at the first request and z2 from then on\<close>
  "recreated_zone served req =
     (if served = [] then answer_with 200 (Inr (Doc (JArray [example_zone ''z1'']))) served req
      else answer_with 200 (Inr (Doc (JArray [example_zone ''z2'']))) served req)"

definition example_query :: Request where
  "example_query =
     \<lparr>Method = ''GET'', URL = ''https://api.netlify.com/api/v1/dns_zones?name=example.com'',
      Header = [(''Authorization'', [''Bearer token''])], Request.Body = None\<rparr>"

definition example_zoneInfo :: netlifyZone where
  "example_zoneInfo = \<lparr>netlifyZone.ID = ''z1'', netlifyZone.Name = ''example.com''\<rparr>"

definition example_record :: libdns_Record where
  "example_record =
     \<lparr>libdns_Record.Type = ''TXT'', libdns_Record.Name = ''foo'', Value = ''bar'',
      libdns_Record.TTL = 300\<rparr>"

definition created_record :: json where
  "created_record =
     JObject [(''ID'', JString ''r1''), (''DNSZoneID'', JString ''z1''), (''Type'', JString ''TXT''),
              (''Name'', JString ''foo.example.com''), (''Content'', JString ''bar''),
              (''TTL'', JNumber 300)]"

section \<open>Properties\<close>

subsection \<open>Traces and decimal numerals\<close>

lemma requests_append: "requests (es @ fs) = requests es @ requests fs"
  by (induction es rule: requests.induct) simp_all

lemma requests_emit:
  "requests (trace (emit e w)) = requests (trace w) @ (case e of ClientDo r \<Rightarrow> [r] | _ \<Rightarrow> [])"
  by (cases e) (simp_all add: emit_def requests_append)

lemma digit_char_is_digit: "d < 10 \<Longrightarrow> is_digit (digit_char d)"
  unfolding is_digit_def digit_char_def less_eq_char_def by simp

lemma digit_val_digit_char: "d < 10 \<Longrightarrow> digit_val (digit_char d) = d"
  unfolding digit_val_def digit_char_def by simp

lemma decimal_digits: "list_all is_digit (decimal n)"
proof (induction n rule: decimal.induct)
  case (1 n)
  show ?case
  proof (cases "n < 10")
    case True
    then show ?thesis by (subst decimal.simps) (simp add: digit_char_is_digit)
  next
    case False
    then show ?thesis using 1 by (subst decimal.simps) (simp add: digit_char_is_digit)
  qed
qed

lemma decimal_nonempty: "decimal n \<noteq> []"
  by (subst decimal.simps) simp

lemma read_decimal_snoc: "read_decimal (s @ [c]) = 10 * read_decimal s + digit_val c"
  by (simp add: read_decimal_def)

lemma read_decimal_decimal: "read_decimal (decimal n) = n"
proof (induction n rule: decimal.induct)
  case (1 n)
  show ?case
  proof (cases "n < 10")
    case True
    then show ?thesis by (subst decimal.simps) (simp add: read_decimal_def digit_val_digit_char)
  next
    case False
    then show ?thesis using 1
      by (subst decimal.simps) (simp add: read_decimal_snoc digit_val_digit_char)
  qed
qed

lemma is_digit_not_minus: "is_digit c \<Longrightarrow> c \<noteq> CHR ''-''"
  unfolding is_digit_def less_eq_char_def by auto

text \<open>What \<open>%d\<close> prints reads back as the number printed.\<close>

lemma read_d_fmt_d: "read_d (fmt_d i) = Some i"
proof (cases "i < 0")
  case True
  then show ?thesis
    by (simp add: read_d_def fmt_d_def decimal_nonempty decimal_digits read_decimal_decimal)
next
  case False
  obtain c cs where d: "decimal (nat i) = c # cs"
    using decimal_nonempty [of "nat i"] by (cases "decimal (nat i)") auto
  have all: "list_all is_digit (c # cs)" using decimal_digits [of "nat i"] d by simp
  then have "c \<noteq> CHR ''-''" using is_digit_not_minus by simp
  moreover have "read_decimal (c # cs) = nat i" using read_decimal_decimal [of "nat i"] d by simp
  ultimately show ?thesis using False d all
    by (simp add: read_d_def fmt_d_def)
qed

lemma error_status_status:
  "error_status (errorString (''got error status: HTTP '' @ fmt_d code)) = Some code"
  by (simp add: error_status_def strings_CutPrefix_def read_d_fmt_d)

subsection \<open>The authenticated transport: \<open>doAPIRequest\<close>\<close>

lemma doAPIRequest_result:
  "fst (doAPIRequest p req w) =
     (case transport w (requests (trace w))
             (Header_Set req ''Authorization'' (''Bearer '' @ PersonnalAccessToken p)) of
        Inl msg \<Rightarrow> Inl (url_Error msg)
      | Inr resp \<Rightarrow>
          (case Response.Body resp of
             Inl e \<Rightarrow> Inl (as_error e)
           | Inr data \<Rightarrow>
               if 400 \<le> StatusCode resp
               then Inl (errorString (''got error status: HTTP '' @ fmt_d (StatusCode resp)))
               else Inr data))"
  by (simp add: doAPIRequest_def Client_Do_def io_ReadAll_def Let_def split: sum.splits)

lemma doAPIRequest_requests:
  "requests (trace (snd (doAPIRequest p req w))) =
     requests (trace w) @ [Header_Set req ''Authorization'' (''Bearer '' @ PersonnalAccessToken p)]"
  by (simp add: doAPIRequest_def Client_Do_def io_ReadAll_def Let_def Logger_Error_def requests_emit
           split: sum.splits)

lemma doAPIRequest_frame:
  "transport (snd (doAPIRequest p req w)) = transport w \<and>
   url_Parse (snd (doAPIRequest p req w)) = url_Parse w"
  by (simp add: doAPIRequest_def Client_Do_def io_ReadAll_def Let_def Logger_Error_def emit_def
           split: sum.splits)

text \<open>
  Claim C5. When the transport hands \<open>doAPIRequest\<close> a response whose body could be
  read, the call returns exactly the bytes of the body if and only if the status code is
  below 400; at 400 and above it fails with an error from which the status code can be
  read back. Either way the call made one round trip and no more: the request with the
  bearer token is the only one added to the trace.
\<close>

theorem doAPIRequest_status:
  assumes "transport w (requests (trace w))
             (Header_Set req ''Authorization'' (''Bearer '' @ PersonnalAccessToken p)) = Inr resp"
    and "Response.Body resp = Inr data"
  shows "(fst (doAPIRequest p req w) = Inr data \<longleftrightarrow> StatusCode resp < 400) \<and>
         (400 \<le> StatusCode resp \<longrightarrow>
            (\<exists>e. fst (doAPIRequest p req w) = Inl e \<and> error_status e = Some (StatusCode resp))) \<and>
         requests (trace (snd (doAPIRequest p req w))) =
           requests (trace w) @
           [Header_Set req ''Authorization'' (''Bearer '' @ PersonnalAccessToken p)]"
  using assms error_status_status [of "StatusCode resp"]
  by (simp add: doAPIRequest_result doAPIRequest_requests)

theorem doAPIRequest_status_witness:
  "fst (doAPIRequest fresh_provider list_zones_request
          (stub_world (answer_with 429 (Inr (Raw ''Too Many Requests''))))) \<noteq>
     Inr (Raw ''Too Many Requests'') \<and>
   (\<exists>e. fst (doAPIRequest fresh_provider list_zones_request
               (stub_world (answer_with 429 (Inr (Raw ''Too Many Requests''))))) = Inl e \<and>
        error_status e = Some 429) \<and>
   requests (trace (snd (doAPIRequest fresh_provider list_zones_request
                           (stub_world (answer_with 429 (Inr (Raw ''Too Many Requests''))))))) =
     [Header_Set list_zones_request ''Authorization'' ''Bearer token'']"
proof -
  let ?w = "stub_world (answer_with 429 (Inr (Raw ''Too Many Requests'')))"
  let ?resp = "\<lparr>StatusCode = 429, Body = Inr (Raw ''Too Many Requests'')\<rparr>"
  have h1: "transport ?w (requests (trace ?w))
              (Header_Set list_zones_request ''Authorization''
                 (''Bearer '' @ PersonnalAccessToken fresh_provider)) = Inr ?resp"
    by (simp add: stub_world_def answer_with_def)
  have h2: "Response.Body ?resp = Inr (Raw ''Too Many Requests'')"
    by simp
  show ?thesis
    using doAPIRequest_status [OF h1 h2]
    by (simp add: stub_world_def fresh_provider_def)
qed

text \<open>
  Claim C8. \<open>doAPIRequest\<close> returns an error of \<open>Do\<close> and an error of reading the
  body as the very error it was handed, and builds the error of a status of 400 or more
  itself, with the code in its message; nothing else makes it fail. An error of \<open>Do\<close>
  never reads as a status, nor does a read error of a type other than the error string.
  The status error has no type of its own, though: it is an error string, and a read
  error that is an error string reads as whatever status its message spells.
\<close>

theorem doAPIRequest_failures:
  "fst (doAPIRequest p req w) =
     (case transport w (requests (trace w))
             (Header_Set req ''Authorization'' (''Bearer '' @ PersonnalAccessToken p)) of
        Inl msg \<Rightarrow> Inl (url_Error msg)
      | Inr resp \<Rightarrow>
          (case Response.Body resp of
             Inl e \<Rightarrow> Inl (as_error e)
           | Inr data \<Rightarrow>
               if 400 \<le> StatusCode resp
               then Inl (errorString (''got error status: HTTP '' @ fmt_d (StatusCode resp)))
               else Inr data)) \<and>
   error_status (url_Error msg) = None \<and>
   error_status (as_error (OtherError msg)) = None \<and>
   error_status (as_error (ErrorString msg)) = error_status (errorString msg) \<and>
   error_status (errorString (''got error status: HTTP '' @ fmt_d code)) = Some code"
  using error_status_status [of code]
  by (simp add: doAPIRequest_result as_error_def error_status_def)

text \<open>
  A response whose status is 200 and whose body breaks off with the error string
  \<open>got error status: HTTP 500\<close> gives the caller what a response with the status
  500 and a body that was read gives: the same error, which reads as the status 500.
\<close>

theorem doAPIRequest_read_error_as_status:
  "fst (doAPIRequest fresh_provider list_zones_request
          (stub_world (answer_with 200 (Inl (ErrorString ''got error status: HTTP 500''))))) =
     fst (doAPIRequest fresh_provider list_zones_request
            (stub_world (answer_with 500 (Inr (Raw ''Internal Server Error''))))) \<and>
   fst (doAPIRequest fresh_provider list_zones_request
          (stub_world (answer_with 200 (Inl (ErrorString ''got error status: HTTP 500''))))) =
     Inl (errorString ''got error status: HTTP 500'') \<and>
   error_status (errorString ''got error status: HTTP 500'') = Some 500"
proof -
  have d: "fmt_d 500 = ''500''" by code_simp
  have r: "read_d ''500'' = Some 500" using read_d_fmt_d [of 500] d by simp
  show ?thesis
    using d r
    by (simp add: doAPIRequest_result stub_world_def answer_with_def as_error_def
          error_status_def strings_CutPrefix_def)
qed

subsection \<open>Requests that are built, and the zone cache as a map\<close>

lemma NewRequest_accepts:
  "http_NewRequestWithContext w ctx method url body =
     (if accepts w ctx url
      then Inr \<lparr>Method = method, URL = url, Header = [], Request.Body = body\<rparr>
      else Inl (if ctx = NilContext then errorString ''net/http: nil Context''
                else url_Error (the (url_Parse w url))))"
  by (auto simp add: http_NewRequestWithContext_def accepts_def split: option.splits)

lemma emit_fields [simp]:
  "transport (emit e w) = transport w" "url_Parse (emit e w) = url_Parse w"
  "trace (emit e w) = trace w @ [e]"
  by (simp_all add: emit_def)

lemma accepts_emit [simp]: "accepts (emit e w) ctx url = accepts w ctx url"
  by (simp add: accepts_def)

lemma map_index_Some [simp]: "map_index (Some m) = m"
  by (simp add: map_index_def fun_eq_iff)

lemma map_index_None [simp]: "map_index None = Map.empty"
  by (simp add: map_index_def fun_eq_iff)

subsection \<open>The zone resolver: \<open>getZoneInfo\<close>\<close>

text \<open>A name that is in the cache is answered from it: nothing is sent, nothing changes.\<close>

lemma getZoneInfo_hit:
  assumes "map_index (zones p) zoneName = Some zone"
  shows "getZoneInfo p ctx zoneName w =
           (Inr zone, p, emit MutexUnlock (emit (MapIndex zoneName) (emit MutexLock w)))"
proof -
  from assms obtain m where "zones p = Some m"
    by (cases "zones p") simp_all
  then show ?thesis using assms
    by (simp add: getZoneInfo_def getZoneInfo_locked_def Let_def)
qed

text \<open>The result of a call, read off the cache and the answer of the transport.\<close>

lemma getZoneInfo_result:
  "fst (getZoneInfo p ctx zoneName w) =
     (case map_index (zones p) zoneName of
        Some zone \<Rightarrow> Inr zone
      | None \<Rightarrow>
          (case http_NewRequestWithContext w ctx ''GET'' (URL (zone_query p zoneName)) None of
             Inl err \<Rightarrow> Inl err
           | Inr req \<Rightarrow>
               (case transport w (requests (trace w)) (zone_query p zoneName) of
                  Inl msg \<Rightarrow> Inl (url_Error msg)
                | Inr resp \<Rightarrow>
                    (case Response.Body resp of
                       Inl e \<Rightarrow> Inl (as_error e)
                     | Inr data \<Rightarrow>
                         if 400 \<le> StatusCode resp
                         then Inl (errorString (''got error status: HTTP '' @
                                                fmt_d (StatusCode resp)))
                         else (case json_Unmarshal (unmarshal_slice unmarshal_netlifyZone) data of
                                 Inl err \<Rightarrow> Inl err
                               | Inr zs \<Rightarrow>
                                   if length zs \<noteq> 1
                                   then Inl (zone_count_error (length zs) zoneName)
                                   else Inr (zs ! 0))))))"
proof (cases "zones p")
  case None
  then show ?thesis
    by (simp add: getZoneInfo_def getZoneInfo_locked_def
        http_NewRequestWithContext_def zone_query_def Values_Set_def http_MethodGet_def
        doAPIRequest_def Client_Do_def io_ReadAll_def Header_Set_def Let_def requests_append
        map_assign_def zone_count_error_def
        split: option.splits sum.splits prod.splits)
next
  case (Some m)
  then show ?thesis
    by (simp add: getZoneInfo_def getZoneInfo_locked_def
        http_NewRequestWithContext_def zone_query_def Values_Set_def http_MethodGet_def
        doAPIRequest_def Client_Do_def io_ReadAll_def Header_Set_def Let_def requests_append
        map_assign_def zone_count_error_def
        split: option.splits sum.splits prod.splits)
qed

text \<open>
  The provider after a call: the cache is a map from then on, and it is the old one
  unless the name was missed and a zone came back, which is then stored under the
  name without its trailing dots.
\<close>

lemma getZoneInfo_provider:
  "fst (snd (getZoneInfo p ctx zoneName w)) =
     p\<lparr>zones := Some (case (map_index (zones p) zoneName, fst (getZoneInfo p ctx zoneName w)) of
                       (None, Inr zone) \<Rightarrow>
                         (map_index (zones p))(strings_TrimRight zoneName ''.'' \<mapsto> zone)
                     | _ \<Rightarrow> map_index (zones p))\<rparr>"
proof (cases "zones p")
  case None
  then show ?thesis
    by (simp add: getZoneInfo_def getZoneInfo_locked_def Let_def map_assign_def
        split: option.splits sum.splits prod.splits)
next
  case (Some m)
  then show ?thesis
    by (simp add: getZoneInfo_def getZoneInfo_locked_def Let_def map_assign_def
        split: option.splits sum.splits prod.splits)
qed

text \<open>The requests of a call: one, the zone query, when the name is missed; none otherwise.\<close>

lemma getZoneInfo_requests:
  "requests (trace (snd (snd (getZoneInfo p ctx zoneName w)))) =
     requests (trace w) @
     (if map_index (zones p) zoneName = None \<and> accepts w ctx (URL (zone_query p zoneName))
      then [zone_query p zoneName] else [])"
proof (cases "zones p")
  case None
  then show ?thesis
    by (simp add: getZoneInfo_def getZoneInfo_locked_def
        NewRequest_accepts zone_query_def Values_Set_def http_MethodGet_def
        doAPIRequest_def Client_Do_def io_ReadAll_def Header_Set_def Let_def requests_append
        map_assign_def Logger_Error_def
        split: option.splits sum.splits prod.splits)
next
  case (Some m)
  then show ?thesis
    by (simp add: getZoneInfo_def getZoneInfo_locked_def
        NewRequest_accepts zone_query_def Values_Set_def http_MethodGet_def
        doAPIRequest_def Client_Do_def io_ReadAll_def Header_Set_def Let_def requests_append
        map_assign_def Logger_Error_def
        split: option.splits sum.splits prod.splits)
qed

lemma getZoneInfo_frame:
  "transport (snd (snd (getZoneInfo p ctx zoneName w))) = transport w \<and>
   url_Parse (snd (snd (getZoneInfo p ctx zoneName w))) = url_Parse w"
  by (simp add: getZoneInfo_def getZoneInfo_locked_def doAPIRequest_def Client_Do_def Let_def
       Logger_Error_def split: option.splits sum.splits prod.splits)

text \<open>
  The events of a call: the mutex is locked, the map is made if it was nil, the name is
  looked up, and the mutex is unlocked last; in between the map is not made again and
  not read again.
\<close>

lemma getZoneInfo_trace:
  "\<exists>es. trace (snd (snd (getZoneInfo p ctx zoneName w))) =
          trace w @ [MutexLock] @ (if zones p = None then [MakeMap] else []) @
          [MapIndex zoneName] @ es @ [MutexUnlock] \<and>
        MutexLock \<notin> set es \<and> MutexUnlock \<notin> set es \<and> MakeMap \<notin> set es \<and>
        (\<forall>k. MapIndex k \<notin> set es)"
  by (simp add: getZoneInfo_def getZoneInfo_locked_def doAPIRequest_def Client_Do_def
        http_NewRequestWithContext_def Let_def requests_append Logger_Error_def io_ReadAll_def
        map_assign_def
        split: option.splits sum.splits prod.splits)

text \<open>Decoding fails with an error of the JSON library only.\<close>

lemma bind_err_Inl:
  "bind_err r f = Inl e \<Longrightarrow> r = Inl e \<or> (\<exists>x. r = Inr x \<and> f x = Inl e)"
  by (cases r) (simp_all add: bind_err_def)

lemma string_field_error: "string_field store j r = Inl e \<Longrightarrow> \<exists>m. e = json_Error m"
  by (cases j) (auto simp add: string_field_def)

lemma int_field_error: "int_field store j r = Inl e \<Longrightarrow> \<exists>m. e = json_Error m"
  by (cases j) (auto simp add: int_field_def split: if_splits)

lemma find_field_member: "find_field fs key = Some f \<Longrightarrow> f \<in> set fs"
  by (auto simp add: find_field_def find_Some_iff split: option.splits)

lemma unmarshal_member_error:
  assumes fs_ok: "\<And>f j r e. f \<in> set fs \<Longrightarrow> snd f j r = Inl e \<Longrightarrow> \<exists>m. e = json_Error m"
    and acc: "fst acc = None \<or> (\<exists>m. fst acc = Some (json_Error m))"
  shows "fst (unmarshal_member fs acc member) = None \<or>
         (\<exists>m. fst (unmarshal_member fs acc member) = Some (json_Error m))"
proof (cases "find_field fs (fst member)")
  case None
  then show ?thesis using acc by (simp add: unmarshal_member_def split: prod.splits)
next
  case (Some f)
  then have f: "f \<in> set fs" by (rule find_field_member)
  show ?thesis
  proof (cases "snd f (snd member) (snd acc)")
    case (Inl e)
    then obtain m where "e = json_Error m" using fs_ok [OF f] by blast
    then show ?thesis using acc Some Inl by (auto simp add: unmarshal_member_def split: prod.splits)
  next
    case (Inr r')
    then show ?thesis using acc Some by (auto simp add: unmarshal_member_def split: prod.splits)
  qed
qed

lemma unmarshal_members_error:
  assumes fs_ok: "\<And>f j r e. f \<in> set fs \<Longrightarrow> snd f j r = Inl e \<Longrightarrow> \<exists>m. e = json_Error m"
  shows "fst acc = None \<or> (\<exists>m. fst acc = Some (json_Error m)) \<Longrightarrow>
         fst (foldl (unmarshal_member fs) acc ms) = None \<or>
         (\<exists>m. fst (foldl (unmarshal_member fs) acc ms) = Some (json_Error m))"
proof (induction ms arbitrary: acc)
  case Nil
  then show ?case by simp
next
  case (Cons member ms)
  have "fst (unmarshal_member fs acc member) = None \<or>
        (\<exists>m. fst (unmarshal_member fs acc member) = Some (json_Error m))"
    using fs_ok Cons.prems by (rule unmarshal_member_error)
  then show ?case using Cons.IH by simp
qed

lemma unmarshal_struct_error:
  assumes fs_ok: "\<And>f j r e. f \<in> set fs \<Longrightarrow> snd f j r = Inl e \<Longrightarrow> \<exists>m. e = json_Error m"
    and "unmarshal_struct fs zero j = Inl e"
  shows "\<exists>m. e = json_Error m"
proof (cases j)
  case (JObject ms)
  have "fst (foldl (unmarshal_member fs) (None, zero) ms) = None \<or>
        (\<exists>m. fst (foldl (unmarshal_member fs) (None, zero) ms) = Some (json_Error m))"
  proof (rule unmarshal_members_error)
    show "\<exists>m. e = json_Error m" if "f \<in> set fs" and "snd f j r = Inl e" for f j r e
      using that by (rule fs_ok)
    show "fst (None :: error option, zero) = None \<or>
          (\<exists>m. fst (None :: error option, zero) = Some (json_Error m))"
      by simp
  qed
  then show ?thesis
    using assms(2) JObject by (auto simp add: unmarshal_struct_def split: prod.splits option.splits)
qed (use assms(2) in \<open>auto simp add: unmarshal_struct_def\<close>)

lemma unmarshal_netlifyZone_error:
  "unmarshal_netlifyZone j = Inl e \<Longrightarrow> \<exists>m. e = json_Error m"
  unfolding unmarshal_netlifyZone_def
  by (erule unmarshal_struct_error [rotated]) (auto dest: string_field_error)

lemma collect_error:
  "collect rs = Inl e \<Longrightarrow> Inl e \<in> set rs"
  by (induction rs) (auto dest!: bind_err_Inl)

lemma unmarshal_slice_error:
  assumes "unmarshal_slice elem j = Inl e"
    and "\<And>x err. elem x = Inl err \<Longrightarrow> \<exists>m. err = json_Error m"
  shows "\<exists>m. e = json_Error m"
proof (cases j)
  case (JArray js)
  with assms(1) have "collect (map elem js) = Inl e" by simp
  then have "Inl e \<in> set (map elem js)" by (rule collect_error)
  then obtain x where "elem x = Inl e" by auto
  then show ?thesis by (rule assms(2))
qed (use assms(1) in auto)

lemma json_Unmarshal_zones_error:
  "json_Unmarshal (unmarshal_slice unmarshal_netlifyZone) data = Inl e \<Longrightarrow> \<exists>m. e = json_Error m"
  by (cases data)
     (auto simp add: json_Unmarshal_def dest: unmarshal_slice_error unmarshal_netlifyZone_error)

lemma getZoneInfo_no_panic: "fst (getZoneInfo p ctx zoneName w) \<noteq> Inl (Panic msg)"
  by (auto simp add: getZoneInfo_result http_NewRequestWithContext_def zone_count_error_def
        as_error_def
        split: option.splits sum.splits read_error.splits dest: json_Unmarshal_zones_error)

lemma getZoneInfo_nil_result:
  "fst (getZoneInfo (p\<lparr>zones := None\<rparr>) ctx zoneName w) =
     fst (getZoneInfo (p\<lparr>zones := Some Map.empty\<rparr>) ctx zoneName w) \<and>
   fst (snd (getZoneInfo (p\<lparr>zones := None\<rparr>) ctx zoneName w)) =
     fst (snd (getZoneInfo (p\<lparr>zones := Some Map.empty\<rparr>) ctx zoneName w))"
  by (simp add: getZoneInfo_def getZoneInfo_locked_def doAPIRequest_def Client_Do_def
        http_NewRequestWithContext_def Let_def requests_append
        split: option.splits sum.splits prod.splits)

lemma getZoneInfo_nil_trace:
  "\<exists>es. trace (snd (snd (getZoneInfo (p\<lparr>zones := None\<rparr>) ctx zoneName w))) =
          trace w @ [MutexLock, MakeMap, MapIndex zoneName] @ es @ [MutexUnlock] \<and>
        trace (snd (snd (getZoneInfo (p\<lparr>zones := Some Map.empty\<rparr>) ctx zoneName w))) =
          trace w @ [MutexLock, MapIndex zoneName] @ es @ [MutexUnlock] \<and>
        MutexLock \<notin> set es \<and> MutexUnlock \<notin> set es \<and> MakeMap \<notin> set es \<and>
        (\<forall>k. MapIndex k \<notin> set es)"
  by (simp add: getZoneInfo_def getZoneInfo_locked_def doAPIRequest_def Client_Do_def
        http_NewRequestWithContext_def Let_def requests_append Logger_Error_def io_ReadAll_def
        map_assign_def
        split: option.splits sum.splits prod.splits)

lemmas decode_eval =
  unmarshal_struct_def unmarshal_member_def find_field_def string_field_def int_field_def

lemmas stub_eval =
  stub_world_def answer_with_def fresh_provider_def example_zone_def zone_query_def accepts_def
  Values_Encode_def shouldEscape_def is_alnum_def strings_TrimRight_def baseURL_def
  json_Unmarshal_def unmarshal_netlifyZone_def decode_eval bind_err_def

text \<open>
  Claim C3. Let a zone name miss the cache, let its query be sent, and let the provider
  answer it with a list of zones whose length is not 1 (none, or several). Then
  \<open>getZoneInfo\<close> fails with the error that prints this length and the name that was
  queried, which is the name without its trailing dots; the query was the one request
  of the call; and the cache holds exactly the entries it held before.
\<close>

theorem getZoneInfo_count_mismatch:
  assumes "map_index (zones p) zoneName = None"
    and "accepts w ctx (URL (zone_query p zoneName))"
    and "transport w (requests (trace w)) (zone_query p zoneName) = Inr resp"
    and "StatusCode resp < 400"
    and "Response.Body resp = Inr data"
    and "json_Unmarshal (unmarshal_slice unmarshal_netlifyZone) data = Inr zs"
    and "length zs \<noteq> 1"
  shows "fst (getZoneInfo p ctx zoneName w) =
           Inl (errorString (''expected 1 zone, got '' @ fmt_d (int (length zs)) @ '' for '' @
                             strings_TrimRight zoneName ''.'')) \<and>
         requests (trace (snd (snd (getZoneInfo p ctx zoneName w)))) =
           requests (trace w) @ [zone_query p zoneName] \<and>
         map_index (zones (fst (snd (getZoneInfo p ctx zoneName w)))) = map_index (zones p)"
proof -
  have r: "fst (getZoneInfo p ctx zoneName w) = Inl (zone_count_error (length zs) zoneName)"
    using assms by (simp add: getZoneInfo_result NewRequest_accepts)
  then have "map_index (zones (fst (snd (getZoneInfo p ctx zoneName w)))) = map_index (zones p)"
    using assms(1) by (simp add: getZoneInfo_provider)
  then show ?thesis
    using r assms(1,2) by (simp add: getZoneInfo_requests zone_count_error_def)
qed

theorem getZoneInfo_count_mismatch_witness:
  "fst (getZoneInfo fresh_provider LiveContext ''example.com''
          (stub_world (answer_with 200
             (Inr (Doc (JArray [example_zone ''z1'', example_zone ''z2''])))))) =
     Inl (errorString ''expected 1 zone, got 2 for example.com'') \<and>
   map_index (zones (fst (snd (getZoneInfo fresh_provider LiveContext ''example.com''
          (stub_world (answer_with 200
             (Inr (Doc (JArray [example_zone ''z1'', example_zone ''z2''])))))))))
     ''example.com'' = None"
proof -
  let ?w = "stub_world (answer_with 200
              (Inr (Doc (JArray [example_zone ''z1'', example_zone ''z2'']))))"
  let ?resp = "\<lparr>StatusCode = 200,
                Body = Inr (Doc (JArray [example_zone ''z1'', example_zone ''z2'']))\<rparr>"
  let ?zs = "[\<lparr>netlifyZone.ID = ''z1'', netlifyZone.Name = ''example.com''\<rparr>,
              \<lparr>netlifyZone.ID = ''z2'', netlifyZone.Name = ''example.com''\<rparr>]"
  have h1: "map_index (zones fresh_provider) ''example.com'' = None"
    by (simp add: fresh_provider_def)
  have h2: "accepts ?w LiveContext (URL (zone_query fresh_provider ''example.com''))"
    by (simp add: accepts_def stub_world_def)
  have h3: "transport ?w (requests (trace ?w)) (zone_query fresh_provider ''example.com'') =
              Inr ?resp"
    by (simp add: stub_world_def answer_with_def)
  have h4: "StatusCode ?resp < 400" by simp
  have h5: "Response.Body ?resp = Inr (Doc (JArray [example_zone ''z1'', example_zone ''z2'']))"
    by simp
  have h6: "json_Unmarshal (unmarshal_slice unmarshal_netlifyZone)
              (Doc (JArray [example_zone ''z1'', example_zone ''z2''])) = Inr ?zs"
    by (simp add: stub_eval)
  have h7: "length ?zs \<noteq> 1" by simp
  have d: "fmt_d 2 = ''2''"
    by code_simp
  show ?thesis
    using getZoneInfo_count_mismatch [OF h1 h2 h3 h4 h5 h6 h7] d
    by (simp add: strings_TrimRight_def fresh_provider_def)
qed

text \<open>
  Claim C10. A provider whose zone cache is the nil map behaves in \<open>getZoneInfo\<close>
  as one whose cache is an empty map: the result and the provider afterwards are the
  same, and so are the events, but for the making of the map, which comes right after
  the locking of the mutex and before the first reading of the map; the unlocking
  comes last. After any call the cache is a map, and no call ends in the panic of an
  assignment to a nil map.
\<close>

theorem getZoneInfo_nil_cache:
  "fst (getZoneInfo (p\<lparr>zones := None\<rparr>) ctx zoneName w) =
     fst (getZoneInfo (p\<lparr>zones := Some Map.empty\<rparr>) ctx zoneName w) \<and>
   fst (snd (getZoneInfo (p\<lparr>zones := None\<rparr>) ctx zoneName w)) =
     fst (snd (getZoneInfo (p\<lparr>zones := Some Map.empty\<rparr>) ctx zoneName w)) \<and>
   (\<exists>es. trace (snd (snd (getZoneInfo (p\<lparr>zones := None\<rparr>) ctx zoneName w))) =
           trace w @ [MutexLock, MakeMap, MapIndex zoneName] @ es @ [MutexUnlock] \<and>
         trace (snd (snd (getZoneInfo (p\<lparr>zones := Some Map.empty\<rparr>) ctx zoneName w))) =
           trace w @ [MutexLock, MapIndex zoneName] @ es @ [MutexUnlock] \<and>
         MutexLock \<notin> set es \<and> MutexUnlock \<notin> set es \<and> MakeMap \<notin> set es \<and>
         (\<forall>k. MapIndex k \<notin> set es)) \<and>
   zones (fst (snd (getZoneInfo p ctx zoneName w))) \<noteq> None \<and>
   (\<forall>msg. fst (getZoneInfo p ctx zoneName w) \<noteq> Inl (Panic msg))"
proof -
  have "zones (fst (snd (getZoneInfo p ctx zoneName w))) \<noteq> None"
    by (simp add: getZoneInfo_provider)
  then show ?thesis
    using getZoneInfo_nil_result [of p ctx zoneName w] getZoneInfo_nil_trace [of p ctx zoneName w]
      getZoneInfo_no_panic [of p ctx zoneName w]
    by blast
qed

subsection \<open>What the cache guarantees, and what it does not\<close>

text \<open>
  A successful call on a missed name leaves the zone under the name without its
  trailing dots, so that name is answered from the cache from then on.
\<close>

lemma getZoneInfo_trimmed_then_cached:
  assumes "fst (getZoneInfo p ctx zoneName w) = Inr zone"
    and "map_index (zones p) zoneName = None"
  shows "getZoneInfo (fst (snd (getZoneInfo p ctx zoneName w))) ctx'
           (strings_TrimRight zoneName ''.'') w' =
         (Inr zone, fst (snd (getZoneInfo p ctx zoneName w)),
          emit MutexUnlock (emit (MapIndex (strings_TrimRight zoneName ''.'')) (emit MutexLock w')))"
proof -
  have "map_index (zones (fst (snd (getZoneInfo p ctx zoneName w))))
          (strings_TrimRight zoneName ''.'') = Some zone"
    using assms by (simp add: getZoneInfo_provider)
  then show ?thesis by (rule getZoneInfo_hit)
qed

text \<open>For a name that has no trailing dot, a second call is served from the cache.\<close>

lemma getZoneInfo_then_cached:
  assumes "fst (getZoneInfo p ctx zoneName w) = Inr zone"
    and "strings_TrimRight zoneName ''.'' = zoneName"
  shows "getZoneInfo (fst (snd (getZoneInfo p ctx zoneName w))) ctx' zoneName w' =
           (Inr zone, fst (snd (getZoneInfo p ctx zoneName w)),
          emit MutexUnlock (emit (MapIndex zoneName) (emit MutexLock w')))"
proof -
  have "map_index (zones (fst (snd (getZoneInfo p ctx zoneName w)))) zoneName = Some zone"
    using assms
    by (cases "map_index (zones p) zoneName")
       (simp_all add: getZoneInfo_provider getZoneInfo_result)
  then show ?thesis by (rule getZoneInfo_hit)
qed

text \<open>No call removes a key of the cache.\<close>

lemma getZoneInfo_keys_grow:
  "dom (map_index (zones p)) \<subseteq>
     dom (map_index (zones (fst (snd (getZoneInfo p ctx zoneName w)))))"
  by (auto simp add: getZoneInfo_provider split: option.splits sum.splits)

text \<open>
  The cache changes only when the name as given was missed, its query was sent and a
  zone came back; the zone then sits under the name without its trailing dots.
\<close>

lemma getZoneInfo_writes:
  assumes "map_index (zones (fst (snd (getZoneInfo p ctx zoneName w)))) \<noteq> map_index (zones p)"
  shows "map_index (zones p) zoneName = None \<and>
         (\<exists>zone. fst (getZoneInfo p ctx zoneName w) = Inr zone \<and>
            map_index (zones (fst (snd (getZoneInfo p ctx zoneName w)))) =
              (map_index (zones p))(strings_TrimRight zoneName ''.'' \<mapsto> zone)) \<and>
         requests (trace (snd (snd (getZoneInfo p ctx zoneName w)))) =
           requests (trace w) @ [zone_query p zoneName]"
proof -
  have miss: "map_index (zones p) zoneName = None"
    using assms by (auto simp add: getZoneInfo_provider split: option.splits)
  moreover obtain zone where z: "fst (getZoneInfo p ctx zoneName w) = Inr zone"
    using assms miss
    by (cases "fst (getZoneInfo p ctx zoneName w)") (auto simp add: getZoneInfo_provider)
  moreover have "accepts w ctx (URL (zone_query p zoneName))"
    using z miss by (auto simp add: getZoneInfo_result NewRequest_accepts split: if_splits)
  ultimately show ?thesis
    by (simp add: getZoneInfo_provider getZoneInfo_requests)
qed

text \<open>
  The keys of a cache that only \<open>getZoneInfo\<close> has filled carry no trailing dot. A
  name that ends in a dot is therefore never found, however often it was resolved:
  every call for it asks the provider again.
\<close>

lemma strings_TrimRight_idem:
  "strings_TrimRight (strings_TrimRight s cutset) cutset = strings_TrimRight s cutset"
  by (simp add: strings_TrimRight_def)

lemma normal_keys_fresh: "zones p = None \<Longrightarrow> normal_keys p"
  by (simp add: normal_keys_def)

lemma getZoneInfo_normal_keys:
  assumes "normal_keys p"
  shows "normal_keys (fst (snd (getZoneInfo p ctx zoneName w)))"
  using assms
  by (auto simp add: normal_keys_def getZoneInfo_provider strings_TrimRight_idem
        split: option.splits sum.splits if_splits)

lemma getZoneInfo_dotted_miss:
  assumes "normal_keys p" and "strings_TrimRight zoneName ''.'' \<noteq> zoneName"
  shows "map_index (zones p) zoneName = None"
  using assms by (auto simp add: normal_keys_def)

lemma getZoneInfo_dotted_always_asks:
  assumes "normal_keys p" and "strings_TrimRight zoneName ''.'' \<noteq> zoneName"
    and "accepts w ctx (URL (zone_query p zoneName))"
  shows "requests (trace (snd (snd (getZoneInfo p ctx zoneName w)))) =
           requests (trace w) @ [zone_query p zoneName]"
  using assms getZoneInfo_dotted_miss [OF assms(1,2)]
  by (simp add: getZoneInfo_requests)

lemmas getZoneInfo_eval =
  getZoneInfo_def getZoneInfo_locked_def doAPIRequest_def Client_Do_def io_ReadAll_def
  http_NewRequestWithContext_def Header_Set_def emit_def Logger_Error_def map_index_def
  map_assign_def json_Unmarshal_def unmarshal_netlifyZone_def decode_eval bind_err_def
  stub_world_def answer_with_def example_zone_def
  fresh_provider_def Values_Encode_def Values_Set_def
  shouldEscape_def is_alnum_def strings_TrimRight_def baseURL_def http_MethodGet_def Let_def

text \<open>
  Claim C2 says that two calls of \<open>getZoneInfo\<close> for one name in a row make at most
  one network call. The code looks the name up as it was given and stores the zone
  under the name without its trailing dots. On a fresh provider, with a provider
  that lists one zone, the first call for \<open>example.com.\<close> succeeds and leaves
  nothing under \<open>example.com.\<close>; the second call sends the same query again.
\<close>

theorem getZoneInfo_twice_trailing_dot:
  "(case getZoneInfo fresh_provider LiveContext ''example.com.'' (stub_world one_zone) of
      (r1, p1, w1) \<Rightarrow>
        (case getZoneInfo p1 LiveContext ''example.com.'' w1 of
           (r2, p2, w2) \<Rightarrow>
             r1 = Inr \<lparr>netlifyZone.ID = ''z1'', netlifyZone.Name = ''example.com''\<rparr> \<and>
             map_index (zones p1) ''example.com.'' = None \<and>
             requests (trace w1) = [example_query] \<and>
             requests (trace w2) = [example_query, example_query]))"
  by (simp add: getZoneInfo_eval one_zone_def example_query_def)

text \<open>
  Claim C1 says that a name with a trailing dot and the name without it hit the same
  cache entry. One way round they do (\<open>getZoneInfo_trimmed_then_cached\<close>). The other
  way round they do not: after \<open>example.com\<close> was resolved and stored, resolving
  \<open>example.com.\<close> is not served from that entry but sends the query again.
\<close>

theorem getZoneInfo_dot_after_plain:
  "(case getZoneInfo fresh_provider LiveContext ''example.com'' (stub_world one_zone) of
      (r1, p1, w1) \<Rightarrow>
        (case getZoneInfo p1 LiveContext ''example.com.'' w1 of
           (r2, p2, w2) \<Rightarrow>
             map_index (zones p1) ''example.com'' =
               Some \<lparr>netlifyZone.ID = ''z1'', netlifyZone.Name = ''example.com''\<rparr> \<and>
             requests (trace w1) = [example_query] \<and>
             requests (trace w2) = [example_query, example_query]))"
  by (simp add: getZoneInfo_eval one_zone_def example_query_def)

text \<open>
  Claim C9 says that no entry of the cache is ever overwritten, so that a cached name
  resolves to the same zone for good. Resolving \<open>example.com.\<close> misses the entry
  of \<open>example.com\<close> and then assigns to it: when the provider lists the zone with a
  new identifier by then, the entry changes from z1 to z2, and the next call for
  \<open>example.com\<close> returns z2 from the cache.
\<close>

theorem getZoneInfo_entry_overwritten:
  "(case getZoneInfo fresh_provider LiveContext ''example.com'' (stub_world recreated_zone) of
      (r1, p1, w1) \<Rightarrow>
        (case getZoneInfo p1 LiveContext ''example.com.'' w1 of
           (r2, p2, w2) \<Rightarrow>
             (case getZoneInfo p2 LiveContext ''example.com'' w2 of
                (r3, p3, w3) \<Rightarrow>
                  r1 = Inr \<lparr>netlifyZone.ID = ''z1'', netlifyZone.Name = ''example.com''\<rparr> \<and>
                  map_index (zones p1) ''example.com'' =
                    Some \<lparr>netlifyZone.ID = ''z1'', netlifyZone.Name = ''example.com''\<rparr> \<and>
                  map_index (zones p2) ''example.com'' =
                    Some \<lparr>netlifyZone.ID = ''z2'', netlifyZone.Name = ''example.com''\<rparr> \<and>
                  r3 = Inr \<lparr>netlifyZone.ID = ''z2'', netlifyZone.Name = ''example.com''\<rparr> \<and>
                  requests (trace w3) = [example_query, example_query])))"
  by (simp add: getZoneInfo_eval recreated_zone_def example_query_def)

subsection \<open>Query strings: parsing reads back what \<open>Encode\<close> wrote\<close>

text \<open>The sixteen hexadecimal digits, checked one by one.\<close>

lemma upperhex_table:
  "list_all (\<lambda>n. ishex (upperhex n) \<and> unhex (upperhex n) = n \<and> CHR ''&'' \<noteq> upperhex n \<and>
                  CHR ''='' \<noteq> upperhex n \<and> CHR '';'' \<noteq> upperhex n) [0..<16]"
  by code_simp

lemma upperhex_nibble:
  assumes "n < 16"
  shows upperhex_ishex: "ishex (upperhex n)"
    and unhex_upperhex: "unhex (upperhex n) = n"
    and upperhex_plain:
      "CHR ''&'' \<noteq> upperhex n \<and> CHR ''='' \<noteq> upperhex n \<and> CHR '';'' \<noteq> upperhex n"
  using assms upperhex_table by (simp_all add: list_all_iff)

lemma of_char_div_16: "(of_char c :: nat) div 16 < 16"
proof -
  have "(of_char c :: nat) < 256" by simp
  then show ?thesis by (simp add: less_mult_imp_div_less)
qed

lemma not_escaped_plain:
  "\<not> shouldEscape c \<Longrightarrow>
     c \<noteq> CHR ''%'' \<and> c \<noteq> CHR ''+'' \<and> c \<noteq> CHR ''&'' \<and> c \<noteq> CHR ''='' \<and> c \<noteq> CHR '';''"
  by (auto simp add: shouldEscape_def is_alnum_def split: if_splits)

lemma QueryUnescape_QueryEscape: "QueryUnescape (QueryEscape s) = Inr s"
proof (induction s)
  case Nil
  then show ?case by simp
next
  case (Cons c s)
  show ?case
  proof (cases "shouldEscape c")
    case True
    then show ?thesis
      using Cons of_char_div_16 [of c]
      by (simp add: bind_err_def upperhex_ishex unhex_upperhex)
  next
    case False
    then show ?thesis
      using Cons not_escaped_plain [of c] by (simp add: bind_err_def)
  qed
qed

text \<open>An escaped string holds none of the separators of a query string.\<close>

lemma QueryEscape_plain:
  "CHR ''&'' \<notin> set (QueryEscape s) \<and> CHR ''='' \<notin> set (QueryEscape s) \<and>
   CHR '';'' \<notin> set (QueryEscape s)"
proof (induction s)
  case Nil
  then show ?case by simp
next
  case (Cons c s)
  show ?case
  proof (cases "shouldEscape c")
    case True
    then show ?thesis
      using Cons of_char_div_16 [of c] upperhex_plain [of "of_char c div 16"]
        upperhex_plain [of "of_char c mod 16"]
      by simp
  next
    case False
    then show ?thesis
      using Cons not_escaped_plain [of c] by auto
  qed
qed

lemma QueryEscape_nonempty: "k \<noteq> [] \<Longrightarrow> QueryEscape k \<noteq> []"
  by (cases k) auto

lemma strings_Split_none: "sep \<notin> set a \<Longrightarrow> strings_Split a sep = [a]"
  by (induction a) auto

lemma strings_Split_first:
  "sep \<notin> set a \<Longrightarrow> strings_Split (a @ sep # b) sep = a # strings_Split b sep"
  by (induction a) (auto split: list.splits)

lemma strings_Cut_first: "sep \<notin> set a \<Longrightarrow> strings_Cut (a @ sep # b) sep = (a, b)"
  by (induction a) (auto simp add: strings_Cut_def)

lemma parse_pair_encoded:
  assumes "k \<noteq> []"
  shows "parse_pair (err, m) (QueryEscape k @ CHR ''='' # QueryEscape v) = (err, Values_Add m k v)"
proof -
  have "CHR '';'' \<notin> set (QueryEscape k @ CHR ''='' # QueryEscape v)"
    using QueryEscape_plain [of k] QueryEscape_plain [of v] by simp
  moreover have "strings_Cut (QueryEscape k @ CHR ''='' # QueryEscape v) CHR ''='' =
                   (QueryEscape k, QueryEscape v)"
    using QueryEscape_plain [of k] by (simp add: strings_Cut_first)
  ultimately show ?thesis
    using assms by (simp add: parse_pair_def QueryUnescape_QueryEscape QueryEscape_nonempty)
qed

lemma pair_string_plain: "CHR ''&'' \<notin> set (pair_string kv)"
  using QueryEscape_plain [of "fst kv"] QueryEscape_plain [of "snd kv"]
  by (simp add: pair_string_def)

lemma parse_pairs_joined:
  assumes "kvs \<noteq> []" and "\<forall>kv \<in> set kvs. fst kv \<noteq> []"
  shows "foldl parse_pair (err, m)
           (strings_Split (strings_Join (map pair_string kvs) ''&'') CHR ''&'') =
         (err, foldl (\<lambda>m kv. Values_Add m (fst kv) (snd kv)) m kvs)"
  using assms
proof (induction kvs arbitrary: m rule: induct_list012)
  case 1
  then show ?case by simp
next
  case (2 kv)
  then show ?case
    using parse_pair_encoded [of "fst kv" err m "snd kv"]
    by (simp add: strings_Split_none pair_string_plain) (simp add: pair_string_def)
next
  case (3 kv kv' kvs)
  have "strings_Split (strings_Join (map pair_string (kv # kv' # kvs)) ''&'') CHR ''&'' =
          pair_string kv # strings_Split (strings_Join (map pair_string (kv' # kvs)) ''&'') CHR ''&''"
    using strings_Split_first [OF pair_string_plain, of kv] by simp
  moreover have "parse_pair (err, m) (pair_string kv) = (err, Values_Add m (fst kv) (snd kv))"
    using 3(4) parse_pair_encoded [of "fst kv" err m "snd kv"] by (simp add: pair_string_def)
  moreover have "foldl parse_pair (err, Values_Add m (fst kv) (snd kv))
                   (strings_Split (strings_Join (map pair_string (kv' # kvs)) ''&'') CHR ''&'') =
                 (err, foldl (\<lambda>m kv. Values_Add m (fst kv) (snd kv))
                         (Values_Add m (fst kv) (snd kv)) (kv' # kvs))"
    using 3(2) [of "Values_Add m (fst kv) (snd kv)"] 3(4) by simp
  ultimately show ?case by simp
qed

lemma Values_Encode_pairs: "Values_Encode v = strings_Join (map pair_string (pairs_of v)) ''&''"
proof -
  have "concat (map (\<lambda>(k, vs). map (\<lambda>x. QueryEscape k @ ''='' @ QueryEscape x) vs) xs) =
        map pair_string (concat (map (\<lambda>(k, vs). map (Pair k) vs) xs))" for xs
    by (induction xs) (auto simp add: pair_string_def)
  then show ?thesis by (simp add: Values_Encode_def pairs_of_def)
qed

lemma url_ParseQuery_Values_Encode:
  assumes "pairs_of v \<noteq> []" and "\<forall>kv \<in> set (pairs_of v). fst kv \<noteq> []"
  shows "url_ParseQuery (Values_Encode v) =
           (None, foldl (\<lambda>m kv. Values_Add m (fst kv) (snd kv)) [] (pairs_of v))"
  using parse_pairs_joined [OF assms, of None "[]"]
  by (simp add: url_ParseQuery_def Values_Encode_pairs)

subsection \<open>Listing records: \<open>getDNSRecords\<close>\<close>

lemma getDNSRecords_parse:
  "url_ParseQuery (Values_Encode
      (if matchContent
       then Values_Set (Values_Set (Values_Set [] ''type'' t) ''name'' n) ''content'' c
       else Values_Set (Values_Set [] ''type'' t) ''name'' n)) =
   (None, (if matchContent then [(''content'', [c])] else []) @ [(''name'', [n]), (''type'', [t])])"
proof (cases matchContent)
  case True
  have p: "pairs_of (Values_Set (Values_Set (Values_Set [] ''type'' t) ''name'' n) ''content'' c) =
           [(''content'', c), (''name'', n), (''type'', t)]"
    by (simp add: pairs_of_def Values_Set_def)
  show ?thesis
    using True by (simp add: url_ParseQuery_Values_Encode p Values_Add_def)
next
  case False
  have p: "pairs_of (Values_Set (Values_Set [] ''type'' t) ''name'' n) =
           [(''name'', n), (''type'', t)]"
    by (simp add: pairs_of_def Values_Set_def)
  show ?thesis
    using False by (simp add: url_ParseQuery_Values_Encode p Values_Add_def)
qed

text \<open>
  Claim C7. Whatever the zone, the record and \<open>matchContent\<close>: if the request can be
  built, \<open>getDNSRecords\<close> sends one request, a GET of the zone's record collection
  with a query string, and nothing otherwise. Parsed as a query string, what follows
  the question mark holds the parameter \<open>type\<close> with the record's type, the parameter
  \<open>name\<close> with the absolute name of the record in the zone, the parameter
  \<open>content\<close> with the record's value exactly when \<open>matchContent\<close> is true, and no
  other parameter.
\<close>

theorem getDNSRecords_query:
  "\<exists>query.
     requests (trace (snd (getDNSRecords p ctx zoneInfo rec matchContent w))) =
       requests (trace w) @
       (if accepts w ctx
             (baseURL @ ''/zones/'' @ netlifyZone.ID zoneInfo @ ''/dns_records?'' @ query)
        then [\<lparr>Method = ''GET'',
               URL = baseURL @ ''/zones/'' @ netlifyZone.ID zoneInfo @ ''/dns_records?'' @ query,
               Header = [(''Authorization'', [''Bearer '' @ PersonnalAccessToken p])],
               Request.Body = None\<rparr>]
        else []) \<and>
     url_ParseQuery query =
       (None,
        (if matchContent then [(''content'', [Value rec])] else []) @
        [(''name'', [AbsoluteName (libdns_Record.Name rec) (netlifyZone.Name zoneInfo)]),
         (''type'', [libdns_Record.Type rec])])"
proof -
  let ?qs2 = "Values_Set (Values_Set [] ''type'' (libdns_Record.Type rec)) ''name''
                (AbsoluteName (libdns_Record.Name rec) (netlifyZone.Name zoneInfo))"
  let ?qs = "if matchContent then Values_Set ?qs2 ''content'' (Value rec) else ?qs2"
  have "requests (trace (snd (getDNSRecords p ctx zoneInfo rec matchContent w))) =
       requests (trace w) @
       (if accepts w ctx
             (baseURL @ ''/zones/'' @ netlifyZone.ID zoneInfo @ ''/dns_records?'' @
              Values_Encode ?qs)
        then [\<lparr>Method = ''GET'',
               URL = baseURL @ ''/zones/'' @ netlifyZone.ID zoneInfo @ ''/dns_records?'' @
                     Values_Encode ?qs,
               Header = [(''Authorization'', [''Bearer '' @ PersonnalAccessToken p])],
               Request.Body = None\<rparr>]
        else [])"
    by (simp add: getDNSRecords_def Let_def NewRequest_accepts http_MethodGet_def
        doAPIRequest_def Client_Do_def io_ReadAll_def Header_Set_def Logger_Error_def
        requests_append
        split: sum.splits prod.splits)
  moreover have "url_ParseQuery (Values_Encode ?qs) =
       (None,
        (if matchContent then [(''content'', [Value rec])] else []) @
        [(''name'', [AbsoluteName (libdns_Record.Name rec) (netlifyZone.Name zoneInfo)]),
         (''type'', [libdns_Record.Type rec])])"
    by (rule getDNSRecords_parse)
  ultimately show ?thesis by blast
qed

lemmas record_eval =
  stub_world_def answer_with_def fresh_provider_def example_zoneInfo_def example_record_def
  created_record_def accepts_def baseURL_def
  marshal_netlifyDNSRecord_def omitempty_string_def omitempty_int_def
  unmarshal_netlifyDNSRecord_def decode_eval bind_err_def

text \<open>The example of the spec: the record foo of the zone example.com, matched by content.\<close>

lemma getDNSRecords_example:
  "requests (trace (snd (getDNSRecords fresh_provider LiveContext example_zoneInfo example_record
                           True
                           (stub_world (answer_with 200 (Inr (Doc (JArray [created_record])))))))) =
     [\<lparr>Method = ''GET'',
       URL = ''https://api.netlify.com/api/v1/zones/z1/dns_records?content=bar&name=foo.example.com&type=TXT'',
       Header = [(''Authorization'', [''Bearer token''])], Request.Body = None\<rparr>] \<and>
   fst (getDNSRecords fresh_provider LiveContext example_zoneInfo example_record True
          (stub_world (answer_with 200 (Inr (Doc (JArray [created_record])))))) =
     Inr [\<lparr>netlifyDNSRecord.ID = ''r1'', DNSZoneID = ''z1'', netlifyDNSRecord.Type = ''TXT'',
           netlifyDNSRecord.Name = ''foo.example.com'', Content = ''bar'',
           netlifyDNSRecord.TTL = 300\<rparr>]"
  by (simp add: getDNSRecords_def doAPIRequest_def Client_Do_def io_ReadAll_def
        http_NewRequestWithContext_def Header_Set_def emit_def Logger_Error_def Let_def
        json_Unmarshal_def http_MethodGet_def
        record_eval AbsoluteName_def strings_HasSuffix_def
        Values_Encode_def Values_Set_def shouldEscape_def is_alnum_def)

subsection \<open>Updating a record: \<open>updateRecord\<close>\<close>

text \<open>The encoding of a wire record holds its non-empty fields, in the spec's sense.\<close>

lemma marshal_nonempty_members:
  "marshal_netlifyDNSRecord r = JObject (nonempty_members r)"
  by (simp add: marshal_netlifyDNSRecord_def nonempty_members_def wire_members_def
        empty_value_def omitempty_string_def omitempty_int_def)

lemma updateRecord_requests:
  "requests (trace (snd (updateRecord p ctx oldRec newRec w))) =
     requests (trace w) @
     (if accepts w ctx (baseURL @ ''/dns_zones/'' @ DNSZoneID oldRec @ ''/dns_records/'' @
                        netlifyDNSRecord.ID oldRec)
      then [\<lparr>Method = ''PATCH'',
             URL = baseURL @ ''/dns_zones/'' @ DNSZoneID oldRec @ ''/dns_records/'' @
                   netlifyDNSRecord.ID oldRec,
             Header = [(''Content-Type'', [''application/json'']),
                       (''Authorization'', [''Bearer '' @ PersonnalAccessToken p])],
             Request.Body = Some (Doc (marshal_netlifyDNSRecord newRec))\<rparr>]
      else [])"
  by (simp add: updateRecord_def Let_def NewRequest_accepts http_MethodPatch_def json_Marshal_def
        doAPIRequest_def Client_Do_def io_ReadAll_def Header_Set_def Logger_Error_def
        requests_append
        split: sum.splits prod.splits)

text \<open>
  Claim C4. Whatever the old and the new record: if the request can be built,
  \<open>updateRecord\<close> sends one request, a PATCH of the URL of the old record (its zone
  identifier and its own), and nothing otherwise. The body is the JSON object of the
  non-empty fields of the new record and of them only. For a new record in which only
  the TTL is set, the object has the one member TTL: type, name and content are left
  out, not sent as empty strings.
\<close>

theorem updateRecord_patch:
  "requests (trace (snd (updateRecord p ctx oldRec newRec w))) =
     requests (trace w) @
     (if accepts w ctx (baseURL @ ''/dns_zones/'' @ DNSZoneID oldRec @ ''/dns_records/'' @
                        netlifyDNSRecord.ID oldRec)
      then [\<lparr>Method = ''PATCH'',
             URL = baseURL @ ''/dns_zones/'' @ DNSZoneID oldRec @ ''/dns_records/'' @
                   netlifyDNSRecord.ID oldRec,
             Header = [(''Content-Type'', [''application/json'']),
                       (''Authorization'', [''Bearer '' @ PersonnalAccessToken p])],
             Request.Body = Some (Doc (JObject (nonempty_members newRec)))\<rparr>]
      else []) \<and>
   nonempty_members
     \<lparr>netlifyDNSRecord.ID = [], DNSZoneID = [], netlifyDNSRecord.Type = [],
      netlifyDNSRecord.Name = [], Content = [], netlifyDNSRecord.TTL = ttl\<rparr> =
     (if ttl = 0 then [] else [(''TTL'', JNumber ttl)])"
  by (simp add: updateRecord_requests marshal_nonempty_members)
     (simp add: nonempty_members_def wire_members_def empty_value_def)

text \<open>The example of the spec: the record r1 of the zone z1 is given the TTL 600.\<close>

lemma updateRecord_example:
  "requests (trace (snd (updateRecord fresh_provider LiveContext
       \<lparr>netlifyDNSRecord.ID = ''r1'', DNSZoneID = ''z1'', netlifyDNSRecord.Type = [],
        netlifyDNSRecord.Name = [], Content = [], netlifyDNSRecord.TTL = 0\<rparr>
       \<lparr>netlifyDNSRecord.ID = [], DNSZoneID = [], netlifyDNSRecord.Type = [],
        netlifyDNSRecord.Name = [], Content = [], netlifyDNSRecord.TTL = 600\<rparr>
       (stub_world (answer_with 200 (Inr (Doc created_record))))))) =
     [\<lparr>Method = ''PATCH'',
       URL = ''https://api.netlify.com/api/v1/dns_zones/z1/dns_records/r1'',
       Header = [(''Content-Type'', [''application/json'']), (''Authorization'', [''Bearer token''])],
       Request.Body = Some (Doc (JObject [(''TTL'', JNumber 600)]))\<rparr>]"
  by (simp add: updateRecord_requests record_eval)

subsection \<open>Creating a record: \<open>createRecord\<close>\<close>

text \<open>
  What follows holds for every function \<open>netlifyRecord\<close> from records to wire
  records: it rests on lines 16 to 40 of client.go alone.
\<close>

lemma createRecord_requests:
  "requests (trace (snd (createRecord netlifyRecord p ctx zoneInfo record w))) =
     requests (trace w) @
     (if accepts w ctx (baseURL @ ''/dns_zones/'' @ netlifyZone.ID zoneInfo @ ''/dns_records'')
      then [\<lparr>Method = ''POST'',
             URL = baseURL @ ''/dns_zones/'' @ netlifyZone.ID zoneInfo @ ''/dns_records'',
             Header = [(''Content-Type'', [''application/json'']),
                       (''Authorization'', [''Bearer '' @ PersonnalAccessToken p])],
             Request.Body = Some (Doc (marshal_netlifyDNSRecord (netlifyRecord record)))\<rparr>]
      else [])"
  by (simp add: createRecord_def Let_def NewRequest_accepts http_MethodPost_def json_Marshal_def
        doAPIRequest_def Client_Do_def io_ReadAll_def Header_Set_def Logger_Error_def
        requests_append
        split: sum.splits prod.splits)

lemma createRecord_result:
  assumes "accepts w ctx (baseURL @ ''/dns_zones/'' @ netlifyZone.ID zoneInfo @ ''/dns_records'')"
    and "transport w (requests (trace w))
           \<lparr>Method = ''POST'',
             URL = baseURL @ ''/dns_zones/'' @ netlifyZone.ID zoneInfo @ ''/dns_records'',
             Header = [(''Content-Type'', [''application/json'']),
                       (''Authorization'', [''Bearer '' @ PersonnalAccessToken p])],
             Request.Body = Some (Doc (marshal_netlifyDNSRecord (netlifyRecord record)))\<rparr> =
           Inr resp"
    and "Response.Body resp = Inr data"
    and "StatusCode resp < 400"
  shows "fst (createRecord netlifyRecord p ctx zoneInfo record w) =
           json_Unmarshal unmarshal_netlifyDNSRecord data"
  using assms
  by (simp add: createRecord_def Let_def NewRequest_accepts http_MethodPost_def json_Marshal_def
        doAPIRequest_def Client_Do_def io_ReadAll_def Header_Set_def Logger_Error_def
        split: sum.splits prod.splits)

text \<open>The name of the zone plays no part in \<open>createRecord\<close>.\<close>

lemma createRecord_zone_name:
  "createRecord netlifyRecord p ctx (zoneInfo\<lparr>netlifyZone.Name := n\<rparr>) record w =
     createRecord netlifyRecord p ctx zoneInfo record w"
  by (simp add: createRecord_def json_Marshal_def Let_def)

text \<open>
  The decoder at work: a member is stored under its name whatever the case of its
  letters, a later member overrides an earlier one, and \<open>null\<close> stores nothing.
\<close>

lemma unmarshal_netlifyDNSRecord_examples:
  "map_sum id netlifyDNSRecord.ID
     (unmarshal_netlifyDNSRecord (JObject [(''ID'', JString ''a''), (''id'', JString ''b'')])) =
     Inr ''b''"
  "map_sum id netlifyDNSRecord.ID
     (unmarshal_netlifyDNSRecord (JObject [(''ID'', JString ''a''), (''ID'', JNull)])) =
     Inr ''a''"
  "map_sum id netlifyDNSRecord.TTL
     (unmarshal_netlifyDNSRecord (JObject [(''ttl'', JNumber 300), (''other'', JBool True)])) =
     Inr 300"
  "unmarshal_netlifyDNSRecord (JObject [(''TTL'', JString ''300'')]) =
     Inl (json_Error ''json: cannot unmarshal into Go struct field of type int'')"
  by (simp_all add: unmarshal_netlifyDNSRecord_def decode_eval upper_ascii_def)

text \<open>
  Claim C6. \<open>createRecord\<close> does not carry the absolute name. The body it posts is
  made from the record alone: the zone yields its identifier for the URL and nothing
  else, so the call is the same whatever the zone is named. On the example of the spec,
  the record foo of the zone z1 named example.com, one POST goes to the record
  collection of z1 and the decoded record with the identifier r1 comes back; the very
  same request, body and all, goes out when the zone z1 is named example.org. The
  absolute names differ, foo.example.com and foo.example.org, and \<open>getDNSRecords\<close>,
  given the same zones and record, asks for the one and for the other.
\<close>

theorem createRecord_body_ignores_zone:
  "createRecord netlifyRecord p ctx (zoneInfo\<lparr>netlifyZone.Name := n\<rparr>) record w =
     createRecord netlifyRecord p ctx zoneInfo record w \<and>
   requests (trace (snd (createRecord netlifyRecord fresh_provider LiveContext
                           example_zoneInfo example_record
                           (stub_world (answer_with 201 (Inr (Doc created_record))))))) =
     [\<lparr>Method = ''POST'', URL = ''https://api.netlify.com/api/v1/dns_zones/z1/dns_records'',
       Header = [(''Content-Type'', [''application/json'']), (''Authorization'', [''Bearer token''])],
       Request.Body = Some (Doc (marshal_netlifyDNSRecord (netlifyRecord example_record)))\<rparr>] \<and>
   requests (trace (snd (createRecord netlifyRecord fresh_provider LiveContext
                           (example_zoneInfo\<lparr>netlifyZone.Name := ''example.org''\<rparr>) example_record
                           (stub_world (answer_with 201 (Inr (Doc created_record))))))) =
     [\<lparr>Method = ''POST'', URL = ''https://api.netlify.com/api/v1/dns_zones/z1/dns_records'',
       Header = [(''Content-Type'', [''application/json'']), (''Authorization'', [''Bearer token''])],
       Request.Body = Some (Doc (marshal_netlifyDNSRecord (netlifyRecord example_record)))\<rparr>] \<and>
   fst (createRecord netlifyRecord fresh_provider LiveContext example_zoneInfo example_record
          (stub_world (answer_with 201 (Inr (Doc created_record))))) =
     Inr \<lparr>netlifyDNSRecord.ID = ''r1'', DNSZoneID = ''z1'', netlifyDNSRecord.Type = ''TXT'',
          netlifyDNSRecord.Name = ''foo.example.com'', Content = ''bar'',
          netlifyDNSRecord.TTL = 300\<rparr> \<and>
   AbsoluteName (libdns_Record.Name example_record) (netlifyZone.Name example_zoneInfo) =
     ''foo.example.com'' \<and>
   AbsoluteName (libdns_Record.Name example_record) ''example.org'' = ''foo.example.org'' \<and>
   map URL (requests (trace (snd (getDNSRecords fresh_provider LiveContext example_zoneInfo
                                    example_record False
                                    (stub_world (answer_with 200 (Inr (Doc (JArray []))))))))) =
     [''https://api.netlify.com/api/v1/zones/z1/dns_records?name=foo.example.com&type=TXT''] \<and>
   map URL (requests (trace (snd (getDNSRecords fresh_provider LiveContext
                                    (example_zoneInfo\<lparr>netlifyZone.Name := ''example.org''\<rparr>)
                                    example_record False
                                    (stub_world (answer_with 200 (Inr (Doc (JArray []))))))))) =
     [''https://api.netlify.com/api/v1/zones/z1/dns_records?name=foo.example.org&type=TXT'']"
proof -
  let ?w = "stub_world (answer_with 201 (Inr (Doc created_record)))"
  have sent: "requests (trace (snd (createRecord netlifyRecord fresh_provider LiveContext
                                      example_zoneInfo example_record ?w))) =
     [\<lparr>Method = ''POST'', URL = ''https://api.netlify.com/api/v1/dns_zones/z1/dns_records'',
       Header = [(''Content-Type'', [''application/json'']), (''Authorization'', [''Bearer token''])],
       Request.Body = Some (Doc (marshal_netlifyDNSRecord (netlifyRecord example_record)))\<rparr>]"
    by (simp add: createRecord_requests stub_world_def fresh_provider_def example_zoneInfo_def
          accepts_def baseURL_def)
  have got: "fst (createRecord netlifyRecord fresh_provider LiveContext example_zoneInfo
                     example_record ?w) =
     Inr \<lparr>netlifyDNSRecord.ID = ''r1'', DNSZoneID = ''z1'', netlifyDNSRecord.Type = ''TXT'',
          netlifyDNSRecord.Name = ''foo.example.com'', Content = ''bar'',
          netlifyDNSRecord.TTL = 300\<rparr>"
    by (simp add: createRecord_def doAPIRequest_def Client_Do_def io_ReadAll_def
          http_NewRequestWithContext_def Header_Set_def emit_def Logger_Error_def Let_def
          json_Unmarshal_def json_Marshal_def http_MethodPost_def upper_ascii_def
          stub_world_def answer_with_def fresh_provider_def example_zoneInfo_def
          created_record_def unmarshal_netlifyDNSRecord_def decode_eval)
  have names: "AbsoluteName (libdns_Record.Name example_record) (netlifyZone.Name example_zoneInfo) =
                 ''foo.example.com'' \<and>
               AbsoluteName (libdns_Record.Name example_record) ''example.org'' = ''foo.example.org''"
    by (simp add: AbsoluteName_def strings_HasSuffix_def example_record_def example_zoneInfo_def)
  have asked: "map URL (requests (trace (snd (getDNSRecords fresh_provider LiveContext
                                    (example_zoneInfo\<lparr>netlifyZone.Name := zone\<rparr>)
                                    example_record False
                                    (stub_world (answer_with 200 (Inr (Doc (JArray []))))))))) =
     [''https://api.netlify.com/api/v1/zones/z1/dns_records?name='' @
      QueryEscape (AbsoluteName ''foo'' zone) @ ''&type=TXT'']" for zone
    by (simp add: getDNSRecords_def doAPIRequest_def Client_Do_def io_ReadAll_def
          http_NewRequestWithContext_def Header_Set_def emit_def Logger_Error_def Let_def
          json_Unmarshal_def http_MethodGet_def
          stub_world_def answer_with_def fresh_provider_def example_zoneInfo_def
          example_record_def baseURL_def
          Values_Encode_def Values_Set_def shouldEscape_def is_alnum_def)
  have com: "QueryEscape (AbsoluteName ''foo'' ''example.com'') = ''foo.example.com''"
    and org: "QueryEscape (AbsoluteName ''foo'' ''example.org'') = ''foo.example.org''"
    by (simp_all add: AbsoluteName_def strings_HasSuffix_def shouldEscape_def is_alnum_def)
  have here: "example_zoneInfo\<lparr>netlifyZone.Name := ''example.com''\<rparr> = example_zoneInfo"
    by (simp add: example_zoneInfo_def)
  show ?thesis
    using sent got names asked [of "''example.com''"] asked [of "''example.org''"] com org here
    by (simp add: createRecord_zone_name)
qed

end
